theory Spec2Isabelle
  imports Complex_Main "HOL-Library.AList" "HOL-Library.Log_Nat"
begin

section \<open>Host numbers\<close>

text \<open>
  Lox numbers are Python floats (IEEE 754 binary64). A finite double is kept by its exact
  rational value; the two zeros are \<open>Finite 0\<close> and \<open>NegZero\<close>; \<open>Infinity True\<close> is the
  negative infinity.
\<close>

datatype double = NaN | Infinity bool | NegZero | Finite rat

fun sign_bit :: "double \<Rightarrow> bool" where
  "sign_bit NaN = False"
| "sign_bit (Infinity s) = s"
| "sign_bit NegZero = True"
| "sign_bit (Finite q) = (q < 0)"

fun rat_of_double :: "double \<Rightarrow> rat" where
  "rat_of_double (Finite q) = q"
| "rat_of_double _ = 0"

definition signed_zero :: "bool \<Rightarrow> double" where
  "signed_zero s = (if s then NegZero else Finite 0)"

definition is_zero :: "double \<Rightarrow> bool" where
  "is_zero d = (d = NegZero \<or> d = Finite 0)"

text \<open>Python's \<open>==\<close> and \<open><\<close> on floats: NaN compares unequal to everything, the zeros are equal.\<close>

fun double_eq :: "double \<Rightarrow> double \<Rightarrow> bool" where
  "double_eq NaN _ = False"
| "double_eq _ NaN = False"
| "double_eq (Infinity s) (Infinity t) = (s = t)"
| "double_eq (Infinity s) _ = False"
| "double_eq _ (Infinity t) = False"
| "double_eq x y = (rat_of_double x = rat_of_double y)"

fun double_lt :: "double \<Rightarrow> double \<Rightarrow> bool" where
  "double_lt NaN _ = False"
| "double_lt _ NaN = False"
| "double_lt (Infinity s) (Infinity t) = (s \<and> \<not> t)"
| "double_lt (Infinity s) _ = s"
| "double_lt _ (Infinity t) = (\<not> t)"
| "double_lt x y = (rat_of_double x < rat_of_double y)"

definition double_le :: "double \<Rightarrow> double \<Rightarrow> bool" where
  "double_le x y = (double_lt x y \<or> double_eq x y)"

text \<open>Rounding of an exact nonzero result to the nearest double, ties to even.\<close>

definition round_half_even :: "rat \<Rightarrow> int" where
  "round_half_even x =
     (let f = \<lfloor>x\<rfloor>; r = x - of_int f
      in if r < 1 / 2 then f else if 1 / 2 < r then f + 1 else if even f then f else f + 1)"

definition floor_log2 :: "rat \<Rightarrow> int" where
  "floor_log2 x =
     (case quotient_of x of (n, d) \<Rightarrow>
        let k = int (floorlog 2 (nat n)) - int (floorlog 2 (nat d))
        in if 2 powi k \<le> x then k else k - 1)"

definition round_double :: "rat \<Rightarrow> double" where
  "round_double q =
     (let a = \<bar>q\<bar>;
          e = max (- 1074) (floor_log2 a - 52);
          m = round_half_even (a / 2 powi e);
          r = of_int m * 2 powi e
      in if 2 ^ 1024 \<le> r then Infinity (q < 0)
         else if m = 0 then signed_zero (q < 0)
         else Finite (if q < 0 then - r else r))"

fun fneg :: "double \<Rightarrow> double" where
  "fneg NaN = NaN"
| "fneg (Infinity s) = Infinity (\<not> s)"
| "fneg NegZero = Finite 0"
| "fneg (Finite q) = (if q = 0 then NegZero else Finite (- q))"

fun fadd :: "double \<Rightarrow> double \<Rightarrow> double" where
  "fadd NaN _ = NaN"
| "fadd _ NaN = NaN"
| "fadd (Infinity s) (Infinity t) = (if s = t then Infinity s else NaN)"
| "fadd (Infinity s) _ = Infinity s"
| "fadd _ (Infinity t) = Infinity t"
| "fadd x y =
     (let r = rat_of_double x + rat_of_double y
      in if r = 0 then signed_zero (x = NegZero \<and> y = NegZero) else round_double r)"

definition fsub :: "double \<Rightarrow> double \<Rightarrow> double" where
  "fsub x y = fadd x (fneg y)"

fun fmul :: "double \<Rightarrow> double \<Rightarrow> double" where
  "fmul NaN _ = NaN"
| "fmul _ NaN = NaN"
| "fmul (Infinity s) y = (if is_zero y then NaN else Infinity (s \<noteq> sign_bit y))"
| "fmul x (Infinity t) = (if is_zero x then NaN else Infinity (sign_bit x \<noteq> t))"
| "fmul x y =
     (let r = rat_of_double x * rat_of_double y
      in if r = 0 then signed_zero (sign_bit x \<noteq> sign_bit y) else round_double r)"

text \<open>Division by a divisor that is not zero (the only one \<open>truediv\<close> asks for).\<close>

fun fdiv :: "double \<Rightarrow> double \<Rightarrow> double" where
  "fdiv NaN _ = NaN"
| "fdiv _ NaN = NaN"
| "fdiv (Infinity s) (Infinity t) = NaN"
| "fdiv (Infinity s) y = Infinity (s \<noteq> sign_bit y)"
| "fdiv x (Infinity t) = signed_zero (sign_bit x \<noteq> t)"
| "fdiv x y =
     (let r = rat_of_double x / rat_of_double y
      in if r = 0 then signed_zero (sign_bit x \<noteq> sign_bit y) else round_double r)"

text \<open>\<open>float.is_integer()\<close> and \<open>int(float)\<close> on an integral float.\<close>

fun is_integer :: "double \<Rightarrow> bool" where
  "is_integer NaN = False"
| "is_integer (Infinity s) = False"
| "is_integer NegZero = True"
| "is_integer (Finite q) = (q = of_int \<lfloor>q\<rfloor>)"

definition int_of_double :: "double \<Rightarrow> int" where
  "int_of_double d = \<lfloor>rat_of_double d\<rfloor>"

text \<open>\<open>str\<close> of a Python int: decimal digits, a minus sign for a negative one.\<close>

fun str_nat :: "nat \<Rightarrow> string" where
  "str_nat n =
     (if n < 10 then [''0123456789'' ! n]
      else str_nat (n div 10) @ [''0123456789'' ! (n mod 10)])"

definition str_int :: "int \<Rightarrow> string" where
  "str_int i = (if i < 0 then CHR ''-'' # str_nat (nat (- i)) else str_nat (nat i))"

text \<open>
  The number a decimal text denotes: the digits read from the left, each worth its place,
  after an optional minus sign. This is what a text must read back as to be the decimal
  form of a number.
\<close>

definition digit_value :: "char \<Rightarrow> nat" where
  "digit_value c = of_char c - 48"

definition read_nat :: "string \<Rightarrow> nat" where
  "read_nat cs = foldl (\<lambda>a c. 10 * a + digit_value c) 0 cs"

definition read_int :: "string \<Rightarrow> int" where
  "read_int cs =
     (case cs of
        [] \<Rightarrow> 0
      | c # rest \<Rightarrow> if c = CHR ''-'' then - int (read_nat rest) else int (read_nat cs))"

section \<open>Syntax trees (ast.py)\<close>

text \<open>
  The operator of a \<open>BinOp\<close> or \<open>UnaryOp\<close> node is one of the runtime functions the
  transformer binds (\<open>op_handler(op.mul)\<close>, ..., \<open>UnaryOp(expr, op.neg)\<close>); the node keeps
  its name. A \<open>Literal\<close> holds a float, a string, a boolean or \<open>None\<close>. An expression
  used as a statement (\<open>this.x = x;\<close>, the increment of a \<open>for\<close>) stands in the tree as
  the expression node itself; \<open>ExprStmt\<close> only marks that position and is no node.
\<close>

datatype binop = OpMul | OpDiv | OpSub | OpAdd | OpGt | OpLt | OpGe | OpLe | OpEq | OpNe

datatype unop = OpNeg | OpNot

datatype lit = LNone | LBool bool | LFloat double | LStr string

datatype expr =
    BinOp expr expr binop
  | Var string
  | Literal lit
  | And expr expr
  | Or expr expr
  | UnaryOp expr unop
  | Call expr "expr list"
  | This
  | Super string
  | Assign string expr
  | Getattr expr string
  | Setattr expr string expr

datatype stmt =
    ExprStmt expr
  | Print expr
  | Return "expr option"
  | VarDef string expr
  | IfStmt expr stmt "stmt option"
  | While expr stmt
  | Block "stmt list"
  | Function string "string list" stmt
  | Class string "stmt list" "string option"

datatype program = Program "stmt list"

section \<open>Runtime values (runtime.py)\<close>

text \<open>
  A \<open>Ctx\<close> is a chain of scope frames; the frames live in the store and a \<open>Ctx\<close> value is
  the list of their addresses, innermost first. An instance is a reference: its address in
  the store of field dictionaries, with the class it was built from (never reassigned). A
  bound method and the wrapper that \<open>__getattr__\<close> builds for \<open>init\<close> (a Python function)
  compare by identity, so each carries the number it was created under.
\<close>

datatype lox_function =
  LoxFunction (fn_name: string) (fn_params: "string list") (fn_body: stmt) (fn_ctx: "nat list")

datatype lox_class =
  LoxClass (cls_name: string) (cls_methods: "(string \<times> lox_function) list")
    (cls_base: "lox_class option")

datatype lox_value =
    VNone
  | VBool bool
  | VFloat double
  | VInt int
  | VStr string
  | VFunction lox_function
  | VClass lox_class
  | VInstance nat lox_class
  | VBoundMethod nat nat lox_class lox_function
  | VInitWrapper nat nat lox_class lox_function

text \<open>
  Exceptions. \<open>LoxReturn\<close> is the control signal of \<open>return\<close>. \<open>NameError\<close> and \<open>KeyError\<close>
  keep the name that was looked up. \<open>Unmodelled\<close> marks an attribute access that reaches
  Python's own attribute tables (an attribute of a value that is not an instance, or a
  name of the host object such as \<open>__dict__\<close>), which this development does not follow.
\<close>

datatype exn =
    LoxError string
  | SemanticError string "string option"
  | NameError string
  | KeyError string
  | TypeError
  | RuntimeError string
  | AttributeError
  | OverflowError
  | LoxReturn lox_value
  | Unmodelled

subsection \<open>Python arithmetic on int and float operands\<close>

text \<open>
  Unary minus on a boolean gives a Python int, so ints occur beside floats. Two ints are
  added, subtracted and multiplied exactly; an int meeting a float is converted first
  (\<open>OverflowError\<close> when it is too large); comparisons are exact.
\<close>

definition float_of_int :: "int \<Rightarrow> exn + double" where
  "float_of_int i =
     (if i = 0 then Inr (Finite 0)
      else case round_double (of_int i) of Infinity s \<Rightarrow> Inl OverflowError | d \<Rightarrow> Inr d)"

definition to_float :: "lox_value \<Rightarrow> exn + double" where
  "to_float v =
     (case v of VFloat d \<Rightarrow> Inr d | VInt i \<Rightarrow> float_of_int i
      | VBool b \<Rightarrow> Inr (Finite (if b then 1 else 0)) | _ \<Rightarrow> Inl TypeError)"

definition float_op :: "(double \<Rightarrow> double \<Rightarrow> double) \<Rightarrow> lox_value \<Rightarrow> lox_value \<Rightarrow> exn + lox_value" where
  "float_op f l r =
     (case to_float l of Inl e \<Rightarrow> Inl e
      | Inr x \<Rightarrow> (case to_float r of Inl e \<Rightarrow> Inl e | Inr y \<Rightarrow> Inr (VFloat (f x y))))"

definition py_add :: "lox_value \<Rightarrow> lox_value \<Rightarrow> exn + lox_value" where
  "py_add l r = (case (l, r) of (VInt i, VInt j) \<Rightarrow> Inr (VInt (i + j)) | _ \<Rightarrow> float_op fadd l r)"

definition py_sub :: "lox_value \<Rightarrow> lox_value \<Rightarrow> exn + lox_value" where
  "py_sub l r = (case (l, r) of (VInt i, VInt j) \<Rightarrow> Inr (VInt (i - j)) | _ \<Rightarrow> float_op fsub l r)"

definition py_mul :: "lox_value \<Rightarrow> lox_value \<Rightarrow> exn + lox_value" where
  "py_mul l r = (case (l, r) of (VInt i, VInt j) \<Rightarrow> Inr (VInt (i * j)) | _ \<Rightarrow> float_op fmul l r)"

definition int_true_div :: "int \<Rightarrow> int \<Rightarrow> exn + lox_value" where
  "int_true_div i j =
     (let q = (of_int i / of_int j :: rat)
      in if q = 0 then Inr (VFloat (signed_zero (j < 0)))
         else case round_double q of Infinity s \<Rightarrow> Inl OverflowError | d \<Rightarrow> Inr (VFloat d))"

definition py_truediv :: "lox_value \<Rightarrow> lox_value \<Rightarrow> exn + lox_value" where
  "py_truediv l r = (case (l, r) of (VInt i, VInt j) \<Rightarrow> int_true_div i j | _ \<Rightarrow> float_op fdiv l r)"

definition exact_of :: "lox_value \<Rightarrow> double" where
  "exact_of v =
     (case v of VFloat d \<Rightarrow> d | VInt i \<Rightarrow> Finite (of_int i)
      | VBool b \<Rightarrow> Finite (if b then 1 else 0) | _ \<Rightarrow> NaN)"

definition py_lt :: "lox_value \<Rightarrow> lox_value \<Rightarrow> bool" where
  "py_lt l r = double_lt (exact_of l) (exact_of r)"

definition py_le :: "lox_value \<Rightarrow> lox_value \<Rightarrow> bool" where
  "py_le l r = double_le (exact_of l) (exact_of r)"

text \<open>\<open>right != 0\<close> on a number.\<close>

definition py_ne_zero :: "lox_value \<Rightarrow> bool" where
  "py_ne_zero r = (\<not> double_eq (exact_of r) (Finite 0))"

text \<open>\<open>operator.neg\<close>: \<open>-x\<close>; a boolean is an int there, other values have no \<open>__neg__\<close>.\<close>

definition neg :: "lox_value \<Rightarrow> exn + lox_value" where
  "neg v =
     (case v of VFloat d \<Rightarrow> Inr (VFloat (fneg d))
      | VInt i \<Rightarrow> Inr (VInt (- i))
      | VBool b \<Rightarrow> Inr (VInt (- (if b then 1 else 0)))
      | _ \<Rightarrow> Inl TypeError)"

subsection \<open>The operators\<close>

definition isinstance_bool :: "lox_value \<Rightarrow> bool" where
  "isinstance_bool v = (case v of VBool b \<Rightarrow> True | _ \<Rightarrow> False)"

definition isinstance_str :: "lox_value \<Rightarrow> bool" where
  "isinstance_str v = (case v of VStr s \<Rightarrow> True | _ \<Rightarrow> False)"

text \<open>\<open>isinstance(v, (int, float))\<close>; \<open>bool\<close> is a subclass of \<open>int\<close>.\<close>

definition isinstance_int_float :: "lox_value \<Rightarrow> bool" where
  "isinstance_int_float v =
     (case v of VBool b \<Rightarrow> True | VInt i \<Rightarrow> True | VFloat d \<Rightarrow> True | _ \<Rightarrow> False)"

definition str_concat :: "lox_value \<Rightarrow> lox_value \<Rightarrow> lox_value" where
  "str_concat l r = (case (l, r) of (VStr a, VStr b) \<Rightarrow> VStr (a @ b) | _ \<Rightarrow> VNone)"

definition truthy :: "lox_value \<Rightarrow> bool" where
  "truthy v = (if v = VNone \<or> v = VBool False then False else True)"

definition add :: "lox_value \<Rightarrow> lox_value \<Rightarrow> exn + lox_value" where
  "add left right =
     (if isinstance_bool left \<or> isinstance_bool right
      then Inl (LoxError ''Operands must be two numbers or two strings.'')
      else if isinstance_str left \<and> isinstance_str right then Inr (str_concat left right)
      else if isinstance_int_float left \<and> isinstance_int_float right then py_add left right
      else Inl (LoxError ''Operands must be two numbers or two strings.''))"

definition sub :: "lox_value \<Rightarrow> lox_value \<Rightarrow> exn + lox_value" where
  "sub left right =
     (if isinstance_bool left \<or> isinstance_bool right
      then Inl (LoxError ''Operands must be numbers.'')
      else if isinstance_int_float left \<and> isinstance_int_float right then py_sub left right
      else Inl (LoxError ''Operands must be numbers.''))"

definition mul :: "lox_value \<Rightarrow> lox_value \<Rightarrow> exn + lox_value" where
  "mul left right =
     (if isinstance_bool left \<or> isinstance_bool right
      then Inl (LoxError ''Operands must be numbers.'')
      else if isinstance_int_float left \<and> isinstance_int_float right then py_mul left right
      else Inl (LoxError ''Operands must be numbers.''))"

definition truediv :: "lox_value \<Rightarrow> lox_value \<Rightarrow> exn + lox_value" where
  "truediv left right =
     (if isinstance_bool left \<or> isinstance_bool right
      then Inl (LoxError ''Operands must be numbers.'')
      else if isinstance_int_float left \<and> isinstance_int_float right
      then (if py_ne_zero right then py_truediv left right else Inr (VFloat NaN))
      else Inl (LoxError ''Operands must be numbers.''))"

definition gt :: "lox_value \<Rightarrow> lox_value \<Rightarrow> exn + lox_value" where
  "gt left right =
     (if isinstance_bool left \<or> isinstance_bool right
      then Inl (LoxError ''Operands must be numbers.'')
      else if isinstance_int_float left \<and> isinstance_int_float right
      then Inr (VBool (py_lt right left))
      else Inl (LoxError ''Operands must be numbers.''))"

definition ge :: "lox_value \<Rightarrow> lox_value \<Rightarrow> exn + lox_value" where
  "ge left right =
     (if isinstance_bool left \<or> isinstance_bool right
      then Inl (LoxError ''Operands must be numbers.'')
      else if isinstance_int_float left \<and> isinstance_int_float right
      then Inr (VBool (py_le right left))
      else Inl (LoxError ''Operands must be numbers.''))"

definition lt :: "lox_value \<Rightarrow> lox_value \<Rightarrow> exn + lox_value" where
  "lt left right =
     (if isinstance_bool left \<or> isinstance_bool right
      then Inl (LoxError ''Operands must be numbers.'')
      else if isinstance_int_float left \<and> isinstance_int_float right
      then Inr (VBool (py_lt left right))
      else Inl (LoxError ''Operands must be numbers.''))"

definition le :: "lox_value \<Rightarrow> lox_value \<Rightarrow> exn + lox_value" where
  "le left right =
     (if isinstance_bool left \<or> isinstance_bool right
      then Inl (LoxError ''Operands must be numbers.'')
      else if isinstance_int_float left \<and> isinstance_int_float right
      then Inr (VBool (py_le left right))
      else Inl (LoxError ''Operands must be numbers.''))"

text \<open>
  \<open>type(v)\<close>, and Python's \<open>==\<close> between two values of one type.

  The syntax nodes are dataclasses: two nodes are equal when they are of the same class
  and their fields are equal, lists element by element. The value of a \<open>Literal\<close> is
  compared by Python's \<open>==\<close> on \<open>None\<close>, booleans, floats and strings, under which \<open>True\<close>
  equals \<open>1.0\<close> and \<open>False\<close> equals \<open>0.0\<close>. (The comparison of tuples and lists tries
  identity first, which only matters for a NaN literal; the transformer builds none.)
\<close>

definition lit_number :: "lit \<Rightarrow> double option" where
  "lit_number l =
     (case l of LBool b \<Rightarrow> Some (Finite (if b then 1 else 0)) | LFloat d \<Rightarrow> Some d
      | _ \<Rightarrow> None)"

definition lit_eq :: "lit \<Rightarrow> lit \<Rightarrow> bool" where
  "lit_eq a b =
     (case a of
        LNone \<Rightarrow> b = LNone
      | LStr t \<Rightarrow> b = LStr t
      | _ \<Rightarrow> (case (lit_number a, lit_number b) of
                (Some x, Some y) \<Rightarrow> double_eq x y
              | _ \<Rightarrow> False))"

fun expr_eq :: "expr \<Rightarrow> expr \<Rightarrow> bool" where
  "expr_eq (BinOp left right op) e =
     (case e of BinOp left' right' op' \<Rightarrow> expr_eq left left' \<and> expr_eq right right' \<and> op = op'
      | _ \<Rightarrow> False)"
| "expr_eq (Var name) e = (e = Var name)"
| "expr_eq (Literal l) e = (case e of Literal l' \<Rightarrow> lit_eq l l' | _ \<Rightarrow> False)"
| "expr_eq (And left right) e =
     (case e of And left' right' \<Rightarrow> expr_eq left left' \<and> expr_eq right right' | _ \<Rightarrow> False)"
| "expr_eq (Or left right) e =
     (case e of Or left' right' \<Rightarrow> expr_eq left left' \<and> expr_eq right right' | _ \<Rightarrow> False)"
| "expr_eq (UnaryOp operand op) e =
     (case e of UnaryOp operand' op' \<Rightarrow> expr_eq operand operand' \<and> op = op' | _ \<Rightarrow> False)"
| "expr_eq (Call func params) e =
     (case e of Call func' params' \<Rightarrow> expr_eq func func' \<and> list_all2 expr_eq params params'
      | _ \<Rightarrow> False)"
| "expr_eq This e = (e = This)"
| "expr_eq (Super method_name) e = (e = Super method_name)"
| "expr_eq (Assign name v) e =
     (case e of Assign name' v' \<Rightarrow> name = name' \<and> expr_eq v v' | _ \<Rightarrow> False)"
| "expr_eq (Getattr v attr) e =
     (case e of Getattr v' attr' \<Rightarrow> expr_eq v v' \<and> attr = attr' | _ \<Rightarrow> False)"
| "expr_eq (Setattr v attr x) e =
     (case e of Setattr v' attr' x' \<Rightarrow> expr_eq v v' \<and> attr = attr' \<and> expr_eq x x'
      | _ \<Rightarrow> False)"

fun stmt_eq :: "stmt \<Rightarrow> stmt \<Rightarrow> bool" where
  "stmt_eq (ExprStmt e) st = (case st of ExprStmt e' \<Rightarrow> expr_eq e e' | _ \<Rightarrow> False)"
| "stmt_eq (Print e) st = (case st of Print e' \<Rightarrow> expr_eq e e' | _ \<Rightarrow> False)"
| "stmt_eq (Return v) st =
     (case st of
        Return v' \<Rightarrow>
          (case v of None \<Rightarrow> v' = None
           | Some e \<Rightarrow> (case v' of None \<Rightarrow> False | Some e' \<Rightarrow> expr_eq e e'))
      | _ \<Rightarrow> False)"
| "stmt_eq (VarDef name e) st =
     (case st of VarDef name' e' \<Rightarrow> name = name' \<and> expr_eq e e' | _ \<Rightarrow> False)"
| "stmt_eq (IfStmt condition then_stmt else_stmt) st =
     (case st of
        IfStmt condition' then_stmt' else_stmt' \<Rightarrow>
          expr_eq condition condition' \<and> stmt_eq then_stmt then_stmt'
          \<and> (case else_stmt of None \<Rightarrow> else_stmt' = None
              | Some els \<Rightarrow> (case else_stmt' of None \<Rightarrow> False | Some els' \<Rightarrow> stmt_eq els els'))
      | _ \<Rightarrow> False)"
| "stmt_eq (While condition body) st =
     (case st of While condition' body' \<Rightarrow> expr_eq condition condition' \<and> stmt_eq body body'
      | _ \<Rightarrow> False)"
| "stmt_eq (Block stmts) st =
     (case st of Block stmts' \<Rightarrow> list_all2 stmt_eq stmts stmts' | _ \<Rightarrow> False)"
| "stmt_eq (Function name params body) st =
     (case st of
        Function name' params' body' \<Rightarrow> name = name' \<and> params = params' \<and> stmt_eq body body'
      | _ \<Rightarrow> False)"
| "stmt_eq (Class name methods superclass) st =
     (case st of
        Class name' methods' superclass' \<Rightarrow>
          name = name' \<and> list_all2 stmt_eq methods methods' \<and> superclass = superclass'
      | _ \<Rightarrow> False)"

text \<open>
  \<open>LoxFunction\<close> and \<open>LoxClass\<close> are dataclasses and compare field by field: a function by
  name, parameters, body and \<open>ctx\<close> (\<open>Ctx\<close> is taken to compare by identity, Python's
  default; each \<open>push\<close> makes a new one); a class by name, method table and base. The
  method table is a dict: equal key sets and equal values under each key, whatever the
  order of insertion. \<open>LoxInstance\<close> is a dataclass too, but it declares no field (it
  sets its class in a hand-written \<open>__init__\<close>), so the generated \<open>__eq__\<close> compares two
  empty tuples. \<open>LoxBoundMethod.__eq__\<close> is \<open>self is other\<close>, and a Python function
  compares by identity.
\<close>

definition function_eq :: "lox_function \<Rightarrow> lox_function \<Rightarrow> bool" where
  "function_eq f g =
     (fn_name f = fn_name g \<and> fn_params f = fn_params g \<and> stmt_eq (fn_body f) (fn_body g)
      \<and> fn_ctx f = fn_ctx g)"

definition methods_eq :: "(string \<times> lox_function) list \<Rightarrow> (string \<times> lox_function) list \<Rightarrow> bool" where
  "methods_eq ms ms' =
     (set (map fst ms) = set (map fst ms')
      \<and> list_all (\<lambda>k. case (map_of ms k, map_of ms' k) of
                         (Some f, Some g) \<Rightarrow> function_eq f g
                       | _ \<Rightarrow> False) (map fst ms))"

fun class_eq :: "lox_class \<Rightarrow> lox_class \<Rightarrow> bool" where
  "class_eq (LoxClass name methods base) d =
     (name = cls_name d \<and> methods_eq methods (cls_methods d)
      \<and> (case base of
            None \<Rightarrow> cls_base d = None
          | Some b \<Rightarrow> (case cls_base d of None \<Rightarrow> False | Some b' \<Rightarrow> class_eq b b')))"

datatype py_type =
  TNoneType | TBool | TFloat | TInt | TStr | TLoxFunction | TLoxClass | TLoxInstance
  | TLoxBoundMethod | TFunctionType

fun type_of :: "lox_value \<Rightarrow> py_type" where
  "type_of VNone = TNoneType"
| "type_of (VBool b) = TBool"
| "type_of (VFloat d) = TFloat"
| "type_of (VInt i) = TInt"
| "type_of (VStr s) = TStr"
| "type_of (VFunction f) = TLoxFunction"
| "type_of (VClass c) = TLoxClass"
| "type_of (VInstance a c) = TLoxInstance"
| "type_of (VBoundMethod k a c m) = TLoxBoundMethod"
| "type_of (VInitWrapper k a c m) = TFunctionType"

definition instance_fields :: "nat \<Rightarrow> lox_class \<Rightarrow> lox_value list" where
  "instance_fields a c = []"

definition py_eq :: "lox_value \<Rightarrow> lox_value \<Rightarrow> bool" where
  "py_eq left right =
     (case left of
        VNone \<Rightarrow> (case right of VNone \<Rightarrow> True | _ \<Rightarrow> False)
      | VBool a \<Rightarrow> (case right of VBool b \<Rightarrow> a = b | _ \<Rightarrow> False)
      | VFloat x \<Rightarrow> (case right of VFloat y \<Rightarrow> double_eq x y | _ \<Rightarrow> False)
      | VInt i \<Rightarrow> (case right of VInt j \<Rightarrow> i = j | _ \<Rightarrow> False)
      | VStr s \<Rightarrow> (case right of VStr t \<Rightarrow> s = t | _ \<Rightarrow> False)
      | VFunction f \<Rightarrow> (case right of VFunction g \<Rightarrow> function_eq f g | _ \<Rightarrow> False)
      | VClass c \<Rightarrow> (case right of VClass d \<Rightarrow> class_eq c d | _ \<Rightarrow> False)
      | VInstance a c \<Rightarrow>
          (case right of VInstance b d \<Rightarrow> instance_fields a c = instance_fields b d
           | _ \<Rightarrow> False)
      | VBoundMethod k a c m \<Rightarrow> (case right of VBoundMethod k' b d n \<Rightarrow> k = k' | _ \<Rightarrow> False)
      | VInitWrapper k a c m \<Rightarrow> (case right of VInitWrapper k' b d n \<Rightarrow> k = k' | _ \<Rightarrow> False))"

definition eq :: "lox_value \<Rightarrow> lox_value \<Rightarrow> bool" where
  "eq left right = (if type_of left \<noteq> type_of right then False else py_eq left right)"

definition ne :: "lox_value \<Rightarrow> lox_value \<Rightarrow> bool" where
  "ne left right = (\<not> eq left right)"

definition not_lox :: "lox_value \<Rightarrow> bool" where
  "not_lox v = (\<not> truthy v)"

text \<open>
  \<open>show\<close>. Python's \<open>str\<close> of a float (the shortest decimal that reads back as the same
  double) is the host's and not followed here: it is the parameter \<open>float_str\<close>. The last
  branch of the source (\<open>value.__class__.__name__\<close>) is the one a Python int reaches.
\<close>

definition show_value :: "(double \<Rightarrow> string) \<Rightarrow> lox_value \<Rightarrow> string" where
  "show_value float_str v =
     (case v of
        VNone \<Rightarrow> ''nil''
      | VBool b \<Rightarrow> (if b then ''true'' else ''false'')
      | VStr s \<Rightarrow> s
      | VFloat d \<Rightarrow>
          (if double_eq d (Finite 0) \<and> float_str d = ''-0.0'' then ''-0''
           else if is_integer d then str_int (int_of_double d)
           else float_str d)
      | VClass c \<Rightarrow> cls_name c
      | VInstance a c \<Rightarrow> cls_name c @ '' instance''
      | VBoundMethod k a c m \<Rightarrow> ''<fn '' @ fn_name m @ ''>''
      | VFunction f \<Rightarrow> ''<fn '' @ fn_name f @ ''>''
      | VInitWrapper k a c m \<Rightarrow> ''<native fn>''
      | VInt i \<Rightarrow> ''int instance'')"

definition show_repr :: "(double \<Rightarrow> string) \<Rightarrow> lox_value \<Rightarrow> string" where
  "show_repr float_str v =
     (case v of VStr s \<Rightarrow> CHR 0x22 # s @ [CHR 0x22] | _ \<Rightarrow> show_value float_str v)"

section \<open>The store and the scope chain\<close>

text \<open>
  The mutable objects of a run: the scope frames (dictionaries from names to values), the
  field dictionaries of the instances, the counter that numbers bound methods and
  wrappers, and what \<open>print\<close> was handed so far, oldest first (\<open>runtime.print\<close> writes
  \<open>show\<close> of each).
\<close>

record state =
  frames :: "(string \<times> lox_value) list list"
  inst_fields :: "(string \<times> lox_value) list list"
  next_id :: nat
  printed :: "lox_value list"

type_synonym 'a result = "((exn + 'a) \<times> state) option"

definition frame_at :: "state \<Rightarrow> nat \<Rightarrow> (string \<times> lox_value) list" where
  "frame_at s a = (if a < length (frames s) then frames s ! a else [])"

definition fields_at :: "state \<Rightarrow> nat \<Rightarrow> (string \<times> lox_value) list" where
  "fields_at s a = (if a < length (inst_fields s) then inst_fields s ! a else [])"

text \<open>A Python dict built from pairs in order: a later pair with the same key wins.\<close>

definition dict_of :: "(string \<times> lox_value) list \<Rightarrow> (string \<times> lox_value) list" where
  "dict_of kvs = foldl (\<lambda>d (k, v). AList.update k v d) [] kvs"

text \<open>
  Modelled from the spec: the class \<open>Ctx\<close> (ctx.py), whose file is not among the sources.
  \<open>push\<close> returns a new environment whose single new frame holds the given bindings and
  whose parent is the environment it was called on; lookup (\<open>ctx[name]\<close>) searches the
  chain from the innermost frame outward and fails when no frame defines the name (the
  callers in ast.py catch \<open>KeyError\<close>); \<open>var_def\<close> creates or overwrites the binding in the
  innermost frame only; \<open>assign\<close> overwrites the first binding found searching outward and
  fails when there is none.
\<close>

definition root_state :: state where
  "root_state = \<lparr>frames = [[]], inst_fields = [], next_id = 0, printed = []\<rparr>"

definition root_ctx :: "nat list" where
  "root_ctx = [0]"

definition push :: "nat list \<Rightarrow> (string \<times> lox_value) list \<Rightarrow> state \<Rightarrow> nat list \<times> state" where
  "push ctx env s = (length (frames s) # ctx, s\<lparr>frames := frames s @ [env]\<rparr>)"

fun ctx_lookup :: "state \<Rightarrow> nat list \<Rightarrow> string \<Rightarrow> exn + lox_value" where
  "ctx_lookup s [] name = Inl (KeyError name)"
| "ctx_lookup s (a # ctx) name =
     (case map_of (frame_at s a) name of Some v \<Rightarrow> Inr v | None \<Rightarrow> ctx_lookup s ctx name)"

definition var_def :: "nat list \<Rightarrow> string \<Rightarrow> lox_value \<Rightarrow> state \<Rightarrow> state" where
  "var_def ctx name v s =
     (case ctx of [] \<Rightarrow> s
      | a # outer \<Rightarrow> s\<lparr>frames := (frames s)[a := AList.update name v (frame_at s a)]\<rparr>)"

fun assign :: "nat list \<Rightarrow> string \<Rightarrow> lox_value \<Rightarrow> state \<Rightarrow> exn + state" where
  "assign [] name v s = Inl (KeyError name)"
| "assign (a # ctx) name v s =
     (case map_of (frame_at s a) name of
        Some old \<Rightarrow> Inr (s\<lparr>frames := (frames s)[a := AList.update name v (frame_at s a)]\<rparr>)
      | None \<Rightarrow> assign ctx name v s)"

section \<open>Classes, instances and functions (runtime.py)\<close>

definition quoted :: "string \<Rightarrow> string" where
  "quoted name = CHR 0x27 # name @ [CHR 0x27]"

fun get_method :: "lox_class \<Rightarrow> string \<Rightarrow> exn + lox_function" where
  "get_method (LoxClass cname methods base) name =
     (case map_of methods name of
        Some m \<Rightarrow> Inr m
      | None \<Rightarrow>
          (case base of
             Some b \<Rightarrow> get_method b name
           | None \<Rightarrow> Inl (LoxError (''Undefined method '' @ quoted name @ ''.''))))"

text \<open>\<open>LoxFunction.bind\<close>: the same function over \<open>self.ctx.push({"this": obj})\<close>.\<close>

definition bind :: "lox_function \<Rightarrow> lox_value \<Rightarrow> state \<Rightarrow> lox_function \<times> state" where
  "bind f obj s =
     (case push (fn_ctx f) [(''this'', obj)] s of
        (ctx', s') \<Rightarrow> (LoxFunction (fn_name f) (fn_params f) (fn_body f) ctx', s'))"

text \<open>\<open>LoxInstance(self)\<close>: a new instance with no field.\<close>

definition new_instance :: "lox_class \<Rightarrow> state \<Rightarrow> lox_value \<times> state" where
  "new_instance c s = (VInstance (length (inst_fields s)) c, s\<lparr>inst_fields := inst_fields s @ [[]]\<rparr>)"

definition arity_message :: "nat \<Rightarrow> nat \<Rightarrow> string" where
  "arity_message expected got =
     ''Expected '' @ str_nat expected @ '' arguments but got '' @ str_nat got @ ''.''"

text \<open>
  Attribute names that Python resolves on the host object itself (the mangled class slot,
  the helper method of \<open>LoxInstance\<close>, the double-underscore names) before or instead of the
  instance's fields and \<open>__getattr__\<close>.
\<close>

definition host_attr :: "string \<Rightarrow> bool" where
  "host_attr attr =
     (attr = ''_LoxInstance__class'' \<or> attr = ''_create_init_wrapper''
      \<or> take 2 attr = ''__'')"

text \<open>
  \<open>getattr(obj, attr)\<close> as \<open>Getattr.eval\<close> calls it. On an instance: a field if there is
  one, else \<open>LoxInstance.__getattr__\<close>, which resolves a method through the class (a
  \<open>LoxFunction\<close> is always true in \<open>if method\<close>) and wraps it. (The \<open>bound_ctx\<close> that
  \<open>LoxBoundMethod.__init__\<close> builds is never read and is left out.)

  On any other value, and for a host name on an instance, Python returns the attribute of
  the host object (\<open>f.body\<close> is the \<open>Block\<close> of a function, \<open>"a".upper\<close> a method of
  \<open>str\<close>) and the run goes on with it. Such values are outside \<open>lox_value\<close>: the run is
  followed up to that read and ends there with \<open>Unmodelled\<close>. A statement about runs that
  end otherwise is therefore a statement about runs that read the attributes of
  instances only.
\<close>

definition getattr_value :: "lox_value \<Rightarrow> string \<Rightarrow> state \<Rightarrow> (exn + lox_value) \<times> state" where
  "getattr_value obj attr s =
     (case obj of
        VInstance a c \<Rightarrow>
          (if host_attr attr then (Inl Unmodelled, s)
           else case map_of (fields_at s a) attr of
             Some v \<Rightarrow> (Inr v, s)
           | None \<Rightarrow>
               (case get_method c attr of
                  Inl e \<Rightarrow> (Inl e, s)
                | Inr m \<Rightarrow>
                    (if attr = ''init''
                     then (Inr (VInitWrapper (next_id s) a c m), s\<lparr>next_id := Suc (next_id s)\<rparr>)
                     else (Inr (VBoundMethod (next_id s) a c m), s\<lparr>next_id := Suc (next_id s)\<rparr>))))
      | _ \<Rightarrow> (Inl Unmodelled, s))"

text \<open>
  \<open>Setattr.eval\<close> after both operands are evaluated: classes and functions are refused,
  then \<open>setattr(obj, attr, val)\<close>.
\<close>

definition setattr_value :: "lox_value \<Rightarrow> string \<Rightarrow> lox_value \<Rightarrow> state \<Rightarrow> (exn + lox_value) \<times> state" where
  "setattr_value obj attr val s =
     (case obj of
        VClass c \<Rightarrow> (Inl (RuntimeError ''Only instances have fields.''), s)
      | VFunction f \<Rightarrow> (Inl (RuntimeError ''Only instances have fields.''), s)
      | VInstance a c \<Rightarrow>
          (if host_attr attr then (Inl Unmodelled, s)
           else (Inr val, s\<lparr>inst_fields := (inst_fields s)[a := AList.update attr val (fields_at s a)]\<rparr>))
      | VBoundMethod k a c m \<Rightarrow> (Inl Unmodelled, s)
      | VInitWrapper k a c m \<Rightarrow> (Inl Unmodelled, s)
      | _ \<Rightarrow> (if host_attr attr then (Inl Unmodelled, s) else (Inl AttributeError, s)))"

section \<open>Evaluation (ast.py)\<close>

definition lit_value :: "lit \<Rightarrow> lox_value" where
  "lit_value l =
     (case l of LNone \<Rightarrow> VNone | LBool b \<Rightarrow> VBool b | LFloat d \<Rightarrow> VFloat d | LStr t \<Rightarrow> VStr t)"

definition apply_binop :: "binop \<Rightarrow> lox_value \<Rightarrow> lox_value \<Rightarrow> exn + lox_value" where
  "apply_binop op l r =
     (case op of
        OpMul \<Rightarrow> mul l r | OpDiv \<Rightarrow> truediv l r | OpSub \<Rightarrow> sub l r | OpAdd \<Rightarrow> add l r
      | OpGt \<Rightarrow> gt l r | OpLt \<Rightarrow> lt l r | OpGe \<Rightarrow> ge l r | OpLe \<Rightarrow> le l r
      | OpEq \<Rightarrow> Inr (VBool (eq l r)) | OpNe \<Rightarrow> Inr (VBool (ne l r)))"

definition apply_unop :: "unop \<Rightarrow> lox_value \<Rightarrow> exn + lox_value" where
  "apply_unop op v = (case op of OpNeg \<Rightarrow> neg v | OpNot \<Rightarrow> Inr (VBool (not_lox v)))"

text \<open>Sequencing: an exception of the first computation ends the whole one.\<close>

definition bind_res :: "'a result \<Rightarrow> ('a \<Rightarrow> state \<Rightarrow> 'b result) \<Rightarrow> 'b result" where
  "bind_res r f =
     (case r of
        None \<Rightarrow> None
      | Some (Inl e, s) \<Rightarrow> Some (Inl e, s)
      | Some (Inr v, s) \<Rightarrow> f v s)"

text \<open>\<open>ctx[name]\<close> under \<open>except KeyError: raise NameError\<close> (\<open>Var.eval\<close>, \<open>This.eval\<close>).\<close>

definition lookup_or_name_error :: "state \<Rightarrow> nat list \<Rightarrow> string \<Rightarrow> exn + lox_value" where
  "lookup_or_name_error s ctx name =
     (case ctx_lookup s ctx name of Inl e \<Rightarrow> Inl (NameError name) | Inr v \<Rightarrow> Inr v)"

text \<open>
  \<open>Super.eval\<close>: both lookups, then \<open>superclass.get_method\<close> and \<open>bind\<close>; a missing \<open>super\<close>
  or \<open>this\<close> becomes a \<open>NameError\<close>.
\<close>

definition super_eval :: "string \<Rightarrow> nat list \<Rightarrow> state \<Rightarrow> (exn + lox_value) \<times> state" where
  "super_eval method_name ctx s =
     (case ctx_lookup s ctx ''super'' of
        Inl e \<Rightarrow> (Inl (NameError ''super''), s)
      | Inr superclass \<Rightarrow>
          (case ctx_lookup s ctx ''this'' of
             Inl e \<Rightarrow> (Inl (NameError ''this''), s)
           | Inr this \<Rightarrow>
               (case superclass of
                  VClass c \<Rightarrow>
                    (case get_method c method_name of
                       Inl e \<Rightarrow> (Inl e, s)
                     | Inr m \<Rightarrow> (case bind m this s of (f, s') \<Rightarrow> (Inr (VFunction f), s')))
                | _ \<Rightarrow> (Inl Unmodelled, s))))"

text \<open>
  \<open>Class.eval\<close>. The method table is filled in order, a later method of the same name
  replacing an earlier one; an entry that is not a \<open>Function\<close> has no \<open>name\<close>, \<open>body\<close> or
  \<open>params\<close>.
\<close>

fun method_table :: "stmt list \<Rightarrow> nat list \<Rightarrow> (string \<times> lox_function) list \<Rightarrow> exn + (string \<times> lox_function) list" where
  "method_table [] method_ctx methods = Inr methods"
| "method_table (Function name params body # rest) method_ctx methods =
     method_table rest method_ctx (AList.update name (LoxFunction name params body method_ctx) methods)"
| "method_table (other # rest) method_ctx methods = Inl AttributeError"

definition class_eval :: "string \<Rightarrow> stmt list \<Rightarrow> string option \<Rightarrow> nat list \<Rightarrow> state \<Rightarrow> (exn + unit) \<times> state" where
  "class_eval name method_defs superclass_name ctx s =
     (case (case superclass_name of
              None \<Rightarrow> Inr None
            | Some sn \<Rightarrow>
                (case ctx_lookup s ctx sn of
                   Inl e \<Rightarrow> Inl e
                 | Inr (VClass c) \<Rightarrow> Inr (Some c)
                 | Inr other \<Rightarrow> Inl (SemanticError ''Superclass must be a class.'' None))) of
        Inl e \<Rightarrow> (Inl e, s)
      | Inr superclass \<Rightarrow>
          (case (case superclass of
                   None \<Rightarrow> (ctx, s)
                 | Some c \<Rightarrow> push ctx [(''super'', VClass c)] s) of
             (method_ctx, s1) \<Rightarrow>
               (case method_table method_defs method_ctx [] of
                  Inl e \<Rightarrow> (Inl e, s1)
                | Inr methods \<Rightarrow>
                    (Inr (), var_def ctx name (VClass (LoxClass name methods superclass)) s1))))"

text \<open>The end of a call: \<open>return None\<close> after the body, \<open>except LoxReturn as e: return e.value\<close>.\<close>

definition finish_call :: "unit result \<Rightarrow> lox_value result" where
  "finish_call r =
     (case r of
        None \<Rightarrow> None
      | Some (Inl (LoxReturn v), s) \<Rightarrow> Some (Inr v, s)
      | Some (Inl e, s) \<Rightarrow> Some (Inl e, s)
      | Some (Inr u, s) \<Rightarrow> Some (Inr VNone, s))"

text \<open>
  The handler of \<open>LoxClass.__call__\<close>: \<open>except LoxError\<close> around the lookup of \<open>init\<close>, its
  binding and its call; every other exception passes.
\<close>

definition except_lox_error :: "lox_value list \<Rightarrow> lox_value \<Rightarrow> lox_value result \<Rightarrow> lox_value result" where
  "except_lox_error args inst r =
     (case r of
        None \<Rightarrow> None
      | Some (Inl (LoxError m), s) \<Rightarrow>
          (if args \<noteq> [] then Some (Inl (LoxError (''Expected 0 arguments but got '' @ str_nat (length args) @ ''.'')), s)
           else Some (Inr inst, s))
      | Some (Inl e, s) \<Rightarrow> Some (Inl e, s)
      | Some (Inr v, s) \<Rightarrow> Some (Inr inst, s))"

text \<open>
  The evaluator. \<open>eval\<close>, \<open>__call__\<close> and the loops of the source call one another; here
  each is written once, over the evaluators \<open>E\<close> it calls, and the evaluators of depth
  \<open>n + 1\<close> are these bodies over the evaluators of depth \<open>n\<close>. At depth \<open>0\<close> nothing
  returns: \<open>None\<close> is a run that needs more depth (a loop or a recursion that does not end
  exhausts every depth).
\<close>

record evaluators =
  expr_eval :: "expr \<Rightarrow> nat list \<Rightarrow> state \<Rightarrow> lox_value result"
  args_eval :: "expr list \<Rightarrow> nat list \<Rightarrow> state \<Rightarrow> lox_value list result"
  stmt_eval :: "stmt \<Rightarrow> nat list \<Rightarrow> state \<Rightarrow> unit result"
  stmts_eval :: "stmt list \<Rightarrow> nat list \<Rightarrow> state \<Rightarrow> unit result"
  value_call :: "lox_value \<Rightarrow> lox_value list \<Rightarrow> state \<Rightarrow> lox_value result"
  function_call :: "lox_function \<Rightarrow> lox_value list \<Rightarrow> state \<Rightarrow> lox_value result"
  class_call :: "lox_class \<Rightarrow> lox_value list \<Rightarrow> state \<Rightarrow> lox_value result"

text \<open>The \<open>eval\<close> methods of the expression nodes.\<close>

definition eval_expr_body :: "evaluators \<Rightarrow> expr \<Rightarrow> nat list \<Rightarrow> state \<Rightarrow> lox_value result" where
  "eval_expr_body E e ctx s =
     (case e of
        BinOp left right op \<Rightarrow>
          bind_res (expr_eval E left ctx s) (\<lambda>left_value s1.
          bind_res (expr_eval E right ctx s1) (\<lambda>right_value s2.
          Some (apply_binop op left_value right_value, s2)))
      | Var name \<Rightarrow> Some (lookup_or_name_error s ctx name, s)
      | Literal l \<Rightarrow> Some (Inr (lit_value l), s)
      | And left right \<Rightarrow>
          bind_res (expr_eval E left ctx s) (\<lambda>left_val s1.
          if left_val = VBool False \<or> left_val = VNone then Some (Inr left_val, s1)
          else expr_eval E right ctx s1)
      | Or left right \<Rightarrow>
          bind_res (expr_eval E left ctx s) (\<lambda>left_val s1.
          if left_val \<noteq> VBool False \<and> left_val \<noteq> VNone then Some (Inr left_val, s1)
          else expr_eval E right ctx s1)
      | UnaryOp operand op \<Rightarrow>
          bind_res (expr_eval E operand ctx s) (\<lambda>v s1. Some (apply_unop op v, s1))
      | Call func params \<Rightarrow>
          bind_res (expr_eval E func ctx s) (\<lambda>func_obj s1.
          bind_res (args_eval E params ctx s1) (\<lambda>args s2.
          value_call E func_obj args s2))
      | This \<Rightarrow> Some (lookup_or_name_error s ctx ''this'', s)
      | Super method_name \<Rightarrow> Some (super_eval method_name ctx s)
      | Assign name v \<Rightarrow>
          bind_res (expr_eval E v ctx s) (\<lambda>res s1.
          case assign ctx name res s1 of
            Inl e \<Rightarrow> Some (Inl e, s1)
          | Inr s2 \<Rightarrow> Some (Inr res, s2))
      | Getattr v attr \<Rightarrow>
          bind_res (expr_eval E v ctx s) (\<lambda>obj s1. Some (getattr_value obj attr s1))
      | Setattr v attr e' \<Rightarrow>
          bind_res (expr_eval E v ctx s) (\<lambda>obj s1.
          bind_res (expr_eval E e' ctx s1) (\<lambda>val s2.
          Some (setattr_value obj attr val s2))))"

text \<open>The loop of \<open>Call.eval\<close> over the argument expressions, left to right.\<close>

definition eval_args_body :: "evaluators \<Rightarrow> expr list \<Rightarrow> nat list \<Rightarrow> state \<Rightarrow> lox_value list result" where
  "eval_args_body E ps ctx s =
     (case ps of
        [] \<Rightarrow> Some (Inr [], s)
      | p # rest \<Rightarrow>
          bind_res (expr_eval E p ctx s) (\<lambda>v s1.
          bind_res (args_eval E rest ctx s1) (\<lambda>vs s2.
          Some (Inr (v # vs), s2))))"

text \<open>The \<open>eval\<close> methods of the statement nodes.\<close>

definition eval_stmt_body :: "evaluators \<Rightarrow> stmt \<Rightarrow> nat list \<Rightarrow> state \<Rightarrow> unit result" where
  "eval_stmt_body E st ctx s =
     (case st of
        ExprStmt e \<Rightarrow> bind_res (expr_eval E e ctx s) (\<lambda>v s1. Some (Inr (), s1))
      | Print e \<Rightarrow>
          bind_res (expr_eval E e ctx s) (\<lambda>v s1.
          Some (Inr (), s1\<lparr>printed := printed s1 @ [v]\<rparr>))
      | Return None \<Rightarrow> Some (Inl (LoxReturn VNone), s)
      | Return (Some e) \<Rightarrow>
          bind_res (expr_eval E e ctx s) (\<lambda>v s1. Some (Inl (LoxReturn v), s1))
      | VarDef name e \<Rightarrow>
          bind_res (expr_eval E e ctx s) (\<lambda>v s1. Some (Inr (), var_def ctx name v s1))
      | IfStmt condition then_stmt else_stmt \<Rightarrow>
          bind_res (expr_eval E condition ctx s) (\<lambda>condition_val s1.
          if truthy condition_val then stmt_eval E then_stmt ctx s1
          else (case else_stmt of
                  Some els \<Rightarrow> stmt_eval E els ctx s1
                | None \<Rightarrow> Some (Inr (), s1)))
      | While condition body \<Rightarrow>
          bind_res (expr_eval E condition ctx s) (\<lambda>condition_val s1.
          if \<not> truthy condition_val then Some (Inr (), s1)
          else bind_res (stmt_eval E body ctx s1) (\<lambda>u s2.
               stmt_eval E (While condition body) ctx s2))
      | Block stmts \<Rightarrow>
          (case push ctx [] s of (new_ctx, s1) \<Rightarrow> stmts_eval E stmts new_ctx s1)
      | Function name params body \<Rightarrow>
          Some (Inr (), var_def ctx name (VFunction (LoxFunction name params body ctx)) s)
      | Class name methods superclass \<Rightarrow> Some (class_eval name methods superclass ctx s))"

text \<open>\<open>for stmt in self.stmts: stmt.eval(ctx)\<close> (\<open>Program.eval\<close>, \<open>Block.eval\<close>).\<close>

definition eval_stmts_body :: "evaluators \<Rightarrow> stmt list \<Rightarrow> nat list \<Rightarrow> state \<Rightarrow> unit result" where
  "eval_stmts_body E stmts ctx s =
     (case stmts of
        [] \<Rightarrow> Some (Inr (), s)
      | st # rest \<Rightarrow>
          bind_res (stmt_eval E st ctx s) (\<lambda>u s1. stmts_eval E rest ctx s1))"

text \<open>\<open>LoxFunction.__call__\<close>.\<close>

definition call_function_body :: "evaluators \<Rightarrow> lox_function \<Rightarrow> lox_value list \<Rightarrow> state \<Rightarrow> lox_value result" where
  "call_function_body E f args s =
     (if length args \<noteq> length (fn_params f)
      then Some (Inl (LoxError (arity_message (length (fn_params f)) (length args))), s)
      else case push (fn_ctx f) (dict_of (zip (fn_params f) args)) s of
             (new_ctx, s1) \<Rightarrow> finish_call (stmt_eval E (fn_body f) new_ctx s1))"

text \<open>\<open>LoxClass.__call__\<close>.\<close>

definition call_class_body :: "evaluators \<Rightarrow> lox_class \<Rightarrow> lox_value list \<Rightarrow> state \<Rightarrow> lox_value result" where
  "call_class_body E c args s =
     (case new_instance c s of
        (inst, s0) \<Rightarrow>
          except_lox_error args inst
            (case get_method c ''init'' of
               Inl e \<Rightarrow> Some (Inl e, s0)
             | Inr init_method \<Rightarrow>
                 (case bind init_method inst s0 of
                    (bound_init, s1) \<Rightarrow> function_call E bound_init args s1)))"

text \<open>
  \<open>func_obj(*params)\<close> in \<open>Call.eval\<close>: \<open>LoxFunction.__call__\<close>, \<open>LoxClass.__call__\<close>,
  \<open>LoxBoundMethod.__call__\<close>, the \<open>init_wrapper\<close> of \<open>_create_init_wrapper\<close>, and
  \<open>TypeError\<close> for a value that is not callable.
\<close>

definition call_value_body :: "evaluators \<Rightarrow> lox_value \<Rightarrow> lox_value list \<Rightarrow> state \<Rightarrow> lox_value result" where
  "call_value_body E func_obj args s =
     (case func_obj of
        VFunction f \<Rightarrow> function_call E f args s
      | VClass c \<Rightarrow> class_call E c args s
      | VBoundMethod k a c m \<Rightarrow>
          (if length args \<noteq> length (fn_params m)
           then Some (Inl (LoxError (arity_message (length (fn_params m)) (length args))), s)
           else case push (fn_ctx m)
                       (dict_of ((''this'', VInstance a c) # zip (fn_params m) args)) s of
                  (new_ctx, s1) \<Rightarrow> finish_call (stmt_eval E (fn_body m) new_ctx s1))
      | VInitWrapper k a c m \<Rightarrow>
          (case bind m (VInstance a c) s of
             (bound_init, s1) \<Rightarrow>
               bind_res (function_call E bound_init args s1) (\<lambda>v s2.
               Some (Inr (VInstance a c), s2)))
      | _ \<Rightarrow> Some (Inl TypeError, s))"

primrec evaluators_at :: "nat \<Rightarrow> evaluators" where
  "evaluators_at 0 =
     \<lparr>expr_eval = (\<lambda>e ctx s. None), args_eval = (\<lambda>ps ctx s. None),
      stmt_eval = (\<lambda>st ctx s. None), stmts_eval = (\<lambda>stmts ctx s. None),
      value_call = (\<lambda>f args s. None), function_call = (\<lambda>f args s. None),
      class_call = (\<lambda>c args s. None)\<rparr>"
| "evaluators_at (Suc n) =
     \<lparr>expr_eval = eval_expr_body (evaluators_at n),
      args_eval = eval_args_body (evaluators_at n),
      stmt_eval = eval_stmt_body (evaluators_at n),
      stmts_eval = eval_stmts_body (evaluators_at n),
      value_call = call_value_body (evaluators_at n),
      function_call = call_function_body (evaluators_at n),
      class_call = call_class_body (evaluators_at n)\<rparr>"

definition eval_expr :: "nat \<Rightarrow> expr \<Rightarrow> nat list \<Rightarrow> state \<Rightarrow> lox_value result" where
  "eval_expr n = expr_eval (evaluators_at n)"

definition eval_stmt :: "nat \<Rightarrow> stmt \<Rightarrow> nat list \<Rightarrow> state \<Rightarrow> unit result" where
  "eval_stmt n = stmt_eval (evaluators_at n)"

definition eval_stmts :: "nat \<Rightarrow> stmt list \<Rightarrow> nat list \<Rightarrow> state \<Rightarrow> unit result" where
  "eval_stmts n = stmts_eval (evaluators_at n)"

definition call_value :: "nat \<Rightarrow> lox_value \<Rightarrow> lox_value list \<Rightarrow> state \<Rightarrow> lox_value result" where
  "call_value n = value_call (evaluators_at n)"

definition call_function :: "nat \<Rightarrow> lox_function \<Rightarrow> lox_value list \<Rightarrow> state \<Rightarrow> lox_value result" where
  "call_function n = function_call (evaluators_at n)"

definition call_class :: "nat \<Rightarrow> lox_class \<Rightarrow> lox_value list \<Rightarrow> state \<Rightarrow> lox_value result" where
  "call_class n = class_call (evaluators_at n)"

text \<open>\<open>Program.eval\<close>: the statements in order, in the context given.\<close>

definition eval_program :: "nat \<Rightarrow> program \<Rightarrow> nat list \<Rightarrow> state \<Rightarrow> unit result" where
  "eval_program n p ctx s = (case p of Program stmts \<Rightarrow> eval_stmts n stmts ctx s)"

text \<open>
  A class has a method of a name in its inheritance chain: in its own table or, failing
  that, in its base's chain (the words of the specification for what \<open>get_method\<close>
  searches).
\<close>

fun in_chain :: "lox_class \<Rightarrow> string \<Rightarrow> bool" where
  "in_chain (LoxClass cname methods base) name =
     (name \<in> fst ` set methods \<or> (case base of Some b \<Rightarrow> in_chain b name | None \<Rightarrow> False))"

section \<open>Programs of the examples\<close>

text \<open>\<open>class P { init(x) { this.x = x; } }\<close> and the class value its evaluation defines.\<close>

definition class_P :: stmt where
  "class_P =
     Class ''P'' [Function ''init'' [''x''] (Block [ExprStmt (Setattr This ''x'' (Var ''x''))])] None"

definition lox_class_P :: lox_class where
  "lox_class_P =
     LoxClass ''P''
       [(''init'', LoxFunction ''init'' [''x'']
                    (Block [ExprStmt (Setattr This ''x'' (Var ''x''))]) [0])]
       None"

text \<open>\<open>print P(1).x; print P(); P(1, 2);\<close> after the class.\<close>

definition program_P :: program where
  "program_P =
     Program
       [class_P,
        Print (Getattr (Call (Var ''P'') [Literal (LFloat (Finite 1))]) ''x''),
        Print (Call (Var ''P'') []),
        ExprStmt (Call (Var ''P'') [Literal (LFloat (Finite 1)), Literal (LFloat (Finite 2))])]"

text \<open>\<open>class Q { init() { true + 1; } }\<close>: an initializer whose body raises a \<open>LoxError\<close>.\<close>

definition lox_class_Q :: lox_class where
  "lox_class_Q =
     LoxClass ''Q''
       [(''init'', LoxFunction ''init'' []
                    (Block [ExprStmt (BinOp (Literal (LBool True)) (Literal (LFloat (Finite 1))) OpAdd)])
                    [0])]
       None"

text \<open>\<open>class A { } class B { } var a = A(); a.x = 1; print a == B();\<close>.\<close>

definition program_unlike_instances :: program where
  "program_unlike_instances =
     Program
       [Class ''A'' [] None, Class ''B'' [] None,
        VarDef ''a'' (Call (Var ''A'') []),
        ExprStmt (Setattr (Var ''a'') ''x'' (Literal (LFloat (Finite 1)))),
        Print (BinOp (Var ''a'') (Call (Var ''B'') []) OpEq)]"

section \<open>Validation\<close>

text \<open>
  Modelled from the spec: the cursor and the traversal of node.py, whose file is not among
  the sources. A cursor pairs a node with the cursors of its ancestors; here it is the
  list of the ancestor nodes, the parent first, the \<open>Program\<close> last (\<open>cursor.parents()\<close>).
  The pass visits the tree top-down, depth-first, the children of a node left to right in
  the order of its fields; it calls the node's \<open>validate_self\<close> (where the class has one)
  before its children, and stops at the first \<open>SemanticError\<close>.
\<close>

datatype node = NProgram program | NExpr expr | NStmt stmt

definition reserved_words :: "string list" where
  "reserved_words =
     [''true'', ''false'', ''nil'', ''return'', ''var'', ''fun'', ''class'', ''if'', ''else'',
      ''while'', ''for'', ''print'', ''and'', ''or'', ''this'', ''super'']"

definition is_block :: "node \<Rightarrow> bool" where
  "is_block nd = (case nd of NStmt (Block stmts) \<Rightarrow> True | _ \<Rightarrow> False)"

definition is_class :: "node \<Rightarrow> bool" where
  "is_class nd = (case nd of NStmt (Class name methods superclass) \<Rightarrow> True | _ \<Rightarrow> False)"

text \<open>
  The first ancestor of a kind, searching outward, with the ancestors of that ancestor:
  the \<open>for parent_cursor in cursor.parents(): if isinstance(parent_cursor.node, ...)\<close> loops.
\<close>

fun first_vardef :: "node list \<Rightarrow> (string \<times> node list) option" where
  "first_vardef [] = None"
| "first_vardef (NStmt (VarDef name e) # outer) = Some (name, outer)"
| "first_vardef (nd # outer) = first_vardef outer"

fun first_function :: "node list \<Rightarrow> (string \<times> string list \<times> node list) option" where
  "first_function [] = None"
| "first_function (NStmt (Function name params body) # outer) = Some (name, params, outer)"
| "first_function (nd # outer) = first_function outer"

fun first_class :: "node list \<Rightarrow> string option option" where
  "first_class [] = None"
| "first_class (NStmt (Class name methods superclass) # outer) = Some superclass"
| "first_class (nd # outer) = first_class outer"

text \<open>\<open>Var.validate_self\<close> (ast.py).\<close>

definition var_validate_self :: "string \<Rightarrow> node list \<Rightarrow> exn + unit" where
  "var_validate_self name parents =
     (if name \<in> set reserved_words
      then Inl (SemanticError ''Expect variable name.'' (Some name))
      else case first_vardef parents of
             Some (vname, outer) \<Rightarrow>
               (if vname = name \<and> list_ex is_block outer
                then Inl (SemanticError
                            (''Can'' @ [CHR 0x27] @ ''t read local variable in its own initializer.'')
                            (Some name))
                else Inr ())
           | None \<Rightarrow> Inr ())"

text \<open>\<open>This.validate_self\<close>.\<close>

definition this_validate_self :: "node list \<Rightarrow> exn + unit" where
  "this_validate_self parents =
     (if list_ex is_class parents then Inr ()
      else Inl (SemanticError (''Can'' @ [CHR 0x27] @ ''t use '' @ quoted ''this''
                                @ '' outside of a class.'') (Some ''this'')))"

text \<open>\<open>Super.validate_self\<close>.\<close>

definition super_validate_self :: "node list \<Rightarrow> exn + unit" where
  "super_validate_self parents =
     (case first_class parents of
        None \<Rightarrow>
          Inl (SemanticError (''Can'' @ [CHR 0x27] @ ''t use '' @ quoted ''super''
                               @ '' outside of a class.'') (Some ''super''))
      | Some None \<Rightarrow>
          Inl (SemanticError (''Can'' @ [CHR 0x27] @ ''t use '' @ quoted ''super''
                               @ '' in a class with no superclass.'') (Some ''super''))
      | Some (Some superclass) \<Rightarrow> Inr ())"

text \<open>
  \<open>Return.validate_self\<close>. The second loop of the source finds the enclosing function
  again (the first \<open>Function\<close> ancestor equals itself) and takes its parent.
\<close>

definition return_validate_self :: "expr option \<Rightarrow> node list \<Rightarrow> exn + unit" where
  "return_validate_self v parents =
     (case first_function parents of
        None \<Rightarrow>
          Inl (SemanticError (''Can'' @ [CHR 0x27] @ ''t return from top-level code.'')
                 (Some ''return''))
      | Some (fname, params, outer) \<Rightarrow>
          (if fname = ''init'' \<and> v \<noteq> None
           then (case outer of
                   function_parent # rest \<Rightarrow>
                     (if is_class function_parent
                      then Inl (SemanticError
                                  (''Can'' @ [CHR 0x27] @ ''t return a value from an initializer.'')
                                  (Some ''return''))
                      else Inr ())
                 | [] \<Rightarrow> Inr ())
           else Inr ()))"

text \<open>\<open>VarDef.validate_self\<close>.\<close>

definition vardef_validate_self :: "string \<Rightarrow> exn + unit" where
  "vardef_validate_self name =
     (if name \<in> set reserved_words
      then Inl (SemanticError ''Expect variable name.'' (Some name))
      else Inr ())"

text \<open>
  \<open>Block.validate_self\<close>: the names declared by the \<open>VarDef\<close> statements directly in the
  block, first against one another, then against the parameters of the nearest enclosing
  function.
\<close>

fun first_redeclared :: "stmt list \<Rightarrow> string list \<Rightarrow> string option" where
  "first_redeclared [] declared_vars = None"
| "first_redeclared (VarDef name e # rest) declared_vars =
     (if name \<in> set declared_vars then Some name
      else first_redeclared rest (name # declared_vars))"
| "first_redeclared (st # rest) declared_vars = first_redeclared rest declared_vars"

fun first_param_clash :: "stmt list \<Rightarrow> string list \<Rightarrow> string option" where
  "first_param_clash [] params = None"
| "first_param_clash (VarDef name e # rest) params =
     (if name \<in> set params then Some name else first_param_clash rest params)"
| "first_param_clash (st # rest) params = first_param_clash rest params"

definition block_validate_self :: "stmt list \<Rightarrow> node list \<Rightarrow> exn + unit" where
  "block_validate_self stmts parents =
     (case first_redeclared stmts [] of
        Some name \<Rightarrow>
          Inl (SemanticError ''Already a variable with this name in this scope.'' (Some name))
      | None \<Rightarrow>
          (case first_function parents of
             None \<Rightarrow> Inr ()
           | Some (fname, params, outer) \<Rightarrow>
               (case first_param_clash stmts params of
                  Some name \<Rightarrow>
                    Inl (SemanticError ''Already a variable with this name in this scope.''
                           (Some name))
                | None \<Rightarrow> Inr ())))"

text \<open>\<open>Function.validate_self\<close>: no reserved parameter name, no parameter name twice.\<close>

fun first_repeated :: "string list \<Rightarrow> string list \<Rightarrow> string option" where
  "first_repeated [] seen = None"
| "first_repeated (p # rest) seen =
     (if p \<in> set seen then Some p else first_repeated rest (p # seen))"

definition function_validate_self :: "string list \<Rightarrow> exn + unit" where
  "function_validate_self params =
     (case List.find (\<lambda>p. p \<in> set reserved_words) params of
        Some p \<Rightarrow> Inl (SemanticError ''Expect variable name.'' (Some p))
      | None \<Rightarrow>
          (case first_repeated params [] of
             Some p \<Rightarrow>
               Inl (SemanticError ''Already a variable with this name in this scope.'' (Some p))
           | None \<Rightarrow> Inr ()))"

text \<open>\<open>Class.validate_self\<close>.\<close>

definition class_validate_self :: "string \<Rightarrow> string option \<Rightarrow> exn + unit" where
  "class_validate_self name superclass =
     (if superclass = Some name
      then Inl (SemanticError (''A class can'' @ [CHR 0x27] @ ''t inherit from itself.'')
                  superclass)
      else Inr ())"

text \<open>The first fault ends the pass.\<close>

definition and_then :: "exn + unit \<Rightarrow> exn + unit \<Rightarrow> exn + unit" where
  "and_then r next = (case r of Inl e \<Rightarrow> Inl e | Inr u \<Rightarrow> next)"

fun validate_expr :: "node list \<Rightarrow> expr \<Rightarrow> exn + unit"
  and validate_exprs :: "node list \<Rightarrow> expr list \<Rightarrow> exn + unit"
where
  "validate_expr parents (BinOp left right op) =
     and_then (validate_expr (NExpr (BinOp left right op) # parents) left)
              (validate_expr (NExpr (BinOp left right op) # parents) right)"
| "validate_expr parents (Var name) = var_validate_self name parents"
| "validate_expr parents (Literal l) = Inr ()"
| "validate_expr parents (And left right) =
     and_then (validate_expr (NExpr (And left right) # parents) left)
              (validate_expr (NExpr (And left right) # parents) right)"
| "validate_expr parents (Or left right) =
     and_then (validate_expr (NExpr (Or left right) # parents) left)
              (validate_expr (NExpr (Or left right) # parents) right)"
| "validate_expr parents (UnaryOp operand op) =
     validate_expr (NExpr (UnaryOp operand op) # parents) operand"
| "validate_expr parents (Call func params) =
     and_then (validate_expr (NExpr (Call func params) # parents) func)
              (validate_exprs (NExpr (Call func params) # parents) params)"
| "validate_expr parents This = this_validate_self parents"
| "validate_expr parents (Super method_name) = super_validate_self parents"
| "validate_expr parents (Assign name v) =
     validate_expr (NExpr (Assign name v) # parents) v"
| "validate_expr parents (Getattr v attr) =
     validate_expr (NExpr (Getattr v attr) # parents) v"
| "validate_expr parents (Setattr v attr e) =
     and_then (validate_expr (NExpr (Setattr v attr e) # parents) v)
              (validate_expr (NExpr (Setattr v attr e) # parents) e)"
| "validate_exprs parents [] = Inr ()"
| "validate_exprs parents (e # es) =
     and_then (validate_expr parents e) (validate_exprs parents es)"

fun validate_stmt :: "node list \<Rightarrow> stmt \<Rightarrow> exn + unit"
  and validate_stmts :: "node list \<Rightarrow> stmt list \<Rightarrow> exn + unit"
where
  "validate_stmt parents (ExprStmt e) = validate_expr parents e"
| "validate_stmt parents (Print e) = validate_expr (NStmt (Print e) # parents) e"
| "validate_stmt parents (Return v) =
     and_then (return_validate_self v parents)
              (case v of None \<Rightarrow> Inr ()
               | Some e \<Rightarrow> validate_expr (NStmt (Return v) # parents) e)"
| "validate_stmt parents (VarDef name e) =
     and_then (vardef_validate_self name)
              (validate_expr (NStmt (VarDef name e) # parents) e)"
| "validate_stmt parents (IfStmt condition then_stmt else_stmt) =
     and_then (validate_expr (NStmt (IfStmt condition then_stmt else_stmt) # parents) condition)
    (and_then (validate_stmt (NStmt (IfStmt condition then_stmt else_stmt) # parents) then_stmt)
              (case else_stmt of None \<Rightarrow> Inr ()
               | Some els \<Rightarrow>
                   validate_stmt (NStmt (IfStmt condition then_stmt else_stmt) # parents) els))"
| "validate_stmt parents (While condition body) =
     and_then (validate_expr (NStmt (While condition body) # parents) condition)
              (validate_stmt (NStmt (While condition body) # parents) body)"
| "validate_stmt parents (Block stmts) =
     and_then (block_validate_self stmts parents)
              (validate_stmts (NStmt (Block stmts) # parents) stmts)"
| "validate_stmt parents (Function name params body) =
     and_then (function_validate_self params)
              (validate_stmt (NStmt (Function name params body) # parents) body)"
| "validate_stmt parents (Class name methods superclass) =
     and_then (class_validate_self name superclass)
              (validate_stmts (NStmt (Class name methods superclass) # parents) methods)"
| "validate_stmts parents [] = Inr ()"
| "validate_stmts parents (st # rest) =
     and_then (validate_stmt parents st) (validate_stmts parents rest)"

definition validate_program :: "program \<Rightarrow> exn + unit" where
  "validate_program p = (case p of Program stmts \<Rightarrow> validate_stmts [NProgram p] stmts)"

text \<open>
  Modelled from the spec: the entry point (no driver is among the sources). Validation
  runs over the whole tree first; only a program that passes is evaluated, by
  \<open>Program.eval\<close> in a fresh root environment.
\<close>

definition run :: "nat \<Rightarrow> program \<Rightarrow> unit result" where
  "run n p =
     (case validate_program p of
        Inl e \<Rightarrow> Some (Inl e, root_state)
      | Inr u \<Rightarrow> eval_program n p root_ctx root_state)"

text \<open>
  A statement holds a read of a variable inside the initializer of a \<open>VarDef\<close> of the same
  name, that \<open>VarDef\<close> being inside a block (\<open>in_block\<close> tells whether the statement itself
  already is).
\<close>

fun occurs :: "string \<Rightarrow> expr \<Rightarrow> bool"
  and occurs_list :: "string \<Rightarrow> expr list \<Rightarrow> bool"
where
  "occurs x (BinOp left right op) = (occurs x left \<or> occurs x right)"
| "occurs x (Var name) = (name = x)"
| "occurs x (Literal l) = False"
| "occurs x (And left right) = (occurs x left \<or> occurs x right)"
| "occurs x (Or left right) = (occurs x left \<or> occurs x right)"
| "occurs x (UnaryOp operand op) = occurs x operand"
| "occurs x (Call func params) = (occurs x func \<or> occurs_list x params)"
| "occurs x This = False"
| "occurs x (Super method_name) = False"
| "occurs x (Assign name v) = occurs x v"
| "occurs x (Getattr v attr) = occurs x v"
| "occurs x (Setattr v attr e) = (occurs x v \<or> occurs x e)"
| "occurs_list x [] = False"
| "occurs_list x (e # es) = (occurs x e \<or> occurs_list x es)"

fun reads_own_initializer :: "bool \<Rightarrow> stmt \<Rightarrow> bool"
  and reads_own_initializer_list :: "bool \<Rightarrow> stmt list \<Rightarrow> bool"
where
  "reads_own_initializer in_block (ExprStmt e) = False"
| "reads_own_initializer in_block (Print e) = False"
| "reads_own_initializer in_block (Return v) = False"
| "reads_own_initializer in_block (VarDef name e) = (in_block \<and> occurs name e)"
| "reads_own_initializer in_block (IfStmt condition then_stmt else_stmt) =
     (reads_own_initializer in_block then_stmt
      \<or> (case else_stmt of None \<Rightarrow> False | Some els \<Rightarrow> reads_own_initializer in_block els))"
| "reads_own_initializer in_block (While condition body) = reads_own_initializer in_block body"
| "reads_own_initializer in_block (Block stmts) = reads_own_initializer_list True stmts"
| "reads_own_initializer in_block (Function name params body) =
     reads_own_initializer in_block body"
| "reads_own_initializer in_block (Class name methods superclass) =
     reads_own_initializer_list in_block methods"
| "reads_own_initializer_list in_block [] = False"
| "reads_own_initializer_list in_block (st # rest) =
     (reads_own_initializer in_block st \<or> reads_own_initializer_list in_block rest)"

text \<open>\<open>{ var x = x; }\<close>, \<open>var x = x;\<close> and \<open>var x = 1; { var y = x; }\<close>.\<close>

definition program_self_init :: program where
  "program_self_init = Program [Block [VarDef ''x'' (Var ''x'')]]"

definition program_top_level_init :: program where
  "program_top_level_init = Program [VarDef ''x'' (Var ''x'')]"

definition program_outer_read :: program where
  "program_outer_read =
     Program [VarDef ''x'' (Literal (LFloat (Finite 1))), Block [VarDef ''y'' (Var ''x'')]]"


text \<open>
  A result is no \<open>SemanticError\<close>, unless the one \<open>Class.eval\<close> raises for a superclass that
  is not a class.
\<close>

definition only_superclass_fault :: "'a result \<Rightarrow> bool" where
  "only_superclass_fault r =
     (\<forall>msg tok s. r = Some (Inl (SemanticError msg tok), s)
        \<longrightarrow> msg = ''Superclass must be a class.'' \<and> tok = None)"

section \<open>Evaluating a run\<close>

text \<open>
  Equations for the evaluators of a given depth, and a congruence rule that keeps the
  simplifier out of a continuation until the computation before it has a result.
\<close>

lemma bind_res_cong [cong]: "r = r' \<Longrightarrow> bind_res r f = bind_res r' f"
  by simp

lemma evaluators_zero [simp]:
  "expr_eval (evaluators_at 0) e ctx s = None"
  "args_eval (evaluators_at 0) ps ctx s = None"
  "stmt_eval (evaluators_at 0) st ctx s = None"
  "stmts_eval (evaluators_at 0) stmts ctx s = None"
  "value_call (evaluators_at 0) v args s = None"
  "function_call (evaluators_at 0) f args s = None"
  "class_call (evaluators_at 0) c args s = None"
  by simp_all

lemma evaluators_Suc [simp]:
  "expr_eval (evaluators_at (Suc n)) = eval_expr_body (evaluators_at n)"
  "args_eval (evaluators_at (Suc n)) = eval_args_body (evaluators_at n)"
  "stmt_eval (evaluators_at (Suc n)) = eval_stmt_body (evaluators_at n)"
  "stmts_eval (evaluators_at (Suc n)) = eval_stmts_body (evaluators_at n)"
  "value_call (evaluators_at (Suc n)) = call_value_body (evaluators_at n)"
  "function_call (evaluators_at (Suc n)) = call_function_body (evaluators_at n)"
  "class_call (evaluators_at (Suc n)) = call_class_body (evaluators_at n)"
  by simp_all

lemma evaluators_numeral [simp]:
  "expr_eval (evaluators_at (numeral k)) = eval_expr_body (evaluators_at (pred_numeral k))"
  "args_eval (evaluators_at (numeral k)) = eval_args_body (evaluators_at (pred_numeral k))"
  "stmt_eval (evaluators_at (numeral k)) = eval_stmt_body (evaluators_at (pred_numeral k))"
  "stmts_eval (evaluators_at (numeral k)) = eval_stmts_body (evaluators_at (pred_numeral k))"
  "value_call (evaluators_at (numeral k)) = call_value_body (evaluators_at (pred_numeral k))"
  "function_call (evaluators_at (numeral k)) = call_function_body (evaluators_at (pred_numeral k))"
  "class_call (evaluators_at (numeral k)) = call_class_body (evaluators_at (pred_numeral k))"
  by (simp_all add: numeral_eq_Suc)

declare evaluators_at.simps [simp del]

declare str_nat.simps [simp del]

lemmas run_defs =
  eval_program_def eval_stmts_def eval_stmt_def eval_expr_def call_value_def
  call_function_def call_class_def eval_expr_body_def eval_args_body_def eval_stmt_body_def
  eval_stmts_body_def call_value_body_def call_function_body_def call_class_body_def
  bind_res_def finish_call_def except_lox_error_def class_eval_def super_eval_def
  lookup_or_name_error_def getattr_value_def setattr_value_def new_instance_def bind_def
  push_def var_def_def dict_of_def frame_at_def fields_at_def host_attr_def lit_value_def
  root_state_def root_ctx_def apply_binop_def apply_unop_def arity_message_def

section \<open>The operators\<close>

lemma digit_in: "k < 10 \<Longrightarrow> ''0123456789'' ! k \<in> set ''0123456789''"
  by (rule nth_mem) simp

lemma str_nat_digits: "set (str_nat n) \<subseteq> set ''0123456789''"
proof (induction n rule: str_nat.induct)
  case (1 n)
  show ?case
  proof (cases "n < 10")
    case True
    then show ?thesis using digit_in[of n] by (subst str_nat.simps) simp
  next
    case False
    have "n mod 10 < 10" by simp
    then have "''0123456789'' ! (n mod 10) \<in> set ''0123456789''" by (rule digit_in)
    with False 1 show ?thesis by (subst str_nat.simps) simp
  qed
qed

lemma str_int_no_point: "CHR ''.'' \<notin> set (str_int i)"
  using str_nat_digits[of "nat i"] str_nat_digits[of "nat (- i)"]
  by (auto simp: str_int_def)

lemma str_nat_digit [simp]:
  "str_nat 0 = ''0''" "str_nat 1 = ''1''" "str_nat 2 = ''2''" "str_nat 3 = ''3''"
  by (simp_all add: str_nat.simps)

lemma small_cases:
  "k < 10 \<Longrightarrow>
     k = 0 \<or> k = 1 \<or> k = 2 \<or> k = 3 \<or> k = 4 \<or> k = 5 \<or> k = 6 \<or> k = 7 \<or> k = 8 \<or> k = (9::nat)"
  by arith

lemma digit_value_digit: "k < 10 \<Longrightarrow> digit_value (''0123456789'' ! k) = k"
  using small_cases[of k] by (auto simp: digit_value_def)

lemma digit_not_minus: "k < 10 \<Longrightarrow> ''0123456789'' ! k \<noteq> CHR ''-''"
  using small_cases[of k] by auto

lemma read_nat_snoc: "read_nat (cs @ [c]) = 10 * read_nat cs + digit_value c"
  by (simp add: read_nat_def)

lemma read_nat_str_nat: "read_nat (str_nat n) = n"
proof (induction n rule: str_nat.induct)
  case (1 n)
  show ?case
  proof (cases "n < 10")
    case True
    then show ?thesis
      using digit_value_digit[of n] by (subst str_nat.simps) (simp add: read_nat_def)
  next
    case False
    have "n mod 10 < 10" by simp
    then have "digit_value (''0123456789'' ! (n mod 10)) = n mod 10" by (rule digit_value_digit)
    with False 1 show ?thesis
      by (subst str_nat.simps) (simp add: read_nat_snoc)
  qed
qed

lemma str_nat_nonempty: "str_nat n \<noteq> []"
  by (subst str_nat.simps) simp

lemma hd_str_nat_not_minus: "hd (str_nat n) \<noteq> CHR ''-''"
proof (induction n rule: str_nat.induct)
  case (1 n)
  show ?case
  proof (cases "n < 10")
    case True
    then show ?thesis using digit_not_minus[of n] by (subst str_nat.simps) simp
  next
    case False
    with 1 show ?thesis
      using str_nat_nonempty[of "n div 10"] by (subst str_nat.simps) simp
  qed
qed

lemma read_int_str_int: "read_int (str_int i) = i"
proof (cases "i < 0")
  case True
  then show ?thesis by (simp add: read_int_def str_int_def read_nat_str_nat)
next
  case False
  obtain c rest where cr: "str_nat (nat i) = c # rest"
    using str_nat_nonempty[of "nat i"] by (cases "str_nat (nat i)") auto
  then have "c \<noteq> CHR ''-''" using hd_str_nat_not_minus[of "nat i"] by simp
  with False cr show ?thesis
    using read_nat_str_nat[of "nat i"] by (simp add: read_int_def str_int_def)
qed

lemma read_nat_zero_text: "read_nat ''0'' = 0"
  by (simp add: read_nat_def digit_value_def)

lemma str_nat_zero_iff: "str_nat n = ''0'' \<Longrightarrow> n = 0"
proof -
  assume a: "str_nat n = ''0''"
  have "read_nat (str_nat n) = n" by (rule read_nat_str_nat)
  with a have "read_nat ''0'' = n" by simp
  then show ?thesis by (simp only: read_nat_zero_text)
qed

lemma str_nat_no_leading_zero: "str_nat n = ''0'' \<or> hd (str_nat n) \<noteq> CHR ''0''"
proof (induction n rule: str_nat.induct)
  case (1 n)
  show ?case
  proof (cases "n < 10")
    case True
    have eq: "str_nat n = [''0123456789'' ! n]" using True by (subst str_nat.simps) simp
    show ?thesis
    proof (cases "''0123456789'' ! n = CHR ''0''")
      case True
      then show ?thesis using eq by simp
    next
      case False
      then show ?thesis using eq by simp
    qed
  next
    case False
    then have "n div 10 \<noteq> 0" by simp
    with str_nat_zero_iff[of "n div 10"] have nz: "str_nat (n div 10) \<noteq> ''0''" by blast
    with 1 False have h: "hd (str_nat (n div 10)) \<noteq> CHR ''0''" by simp
    have eq: "str_nat n = str_nat (n div 10) @ [''0123456789'' ! (n mod 10)]"
      using False by (subst str_nat.simps) simp
    have "hd (str_nat n) = hd (str_nat (n div 10))"
      using str_nat_nonempty[of "n div 10"] by (simp add: eq)
    with h show ?thesis by simp
  qed
qed

lemma digits_subset_signed: "set ''0123456789'' \<subseteq> set (CHR ''-'' # ''0123456789'')"
  by (rule set_subset_Cons)

lemma str_int_chars: "set (str_int i) \<subseteq> set ''-0123456789''"
proof (cases "i < 0")
  case True
  have "set (str_nat (nat (- i))) \<subseteq> set (CHR ''-'' # ''0123456789'')"
    using str_nat_digits[of "nat (- i)"] digits_subset_signed by (rule subset_trans)
  then have "set (CHR ''-'' # str_nat (nat (- i))) \<subseteq> set (CHR ''-'' # ''0123456789'')"
    by (metis insert_subset list.set_intros(1) list.simps(15))
  with True show ?thesis by (simp only: str_int_def if_True)
next
  case False
  have "set (str_nat (nat i)) \<subseteq> set (CHR ''-'' # ''0123456789'')"
    using str_nat_digits[of "nat i"] digits_subset_signed by (rule subset_trans)
  with False show ?thesis by (simp only: str_int_def if_False)
qed

lemma py_truediv_not_lox_error: "py_truediv l r \<noteq> Inl (LoxError m)"
  by (auto simp: py_truediv_def int_true_div_def float_op_def to_float_def float_of_int_def Let_def
      split: lox_value.splits sum.splits double.splits if_splits)

text \<open>
  C3. The equality operator answers true for every pair of instances, whatever their
  classes and fields: \<open>eq\<close> passes the type test (both are \<open>LoxInstance\<close>) and the
  dataclass \<open>__eq__\<close> of \<open>LoxInstance\<close> has no field to compare.
\<close>

theorem eq_instances_always_true: "eq (VInstance a c) (VInstance b d) = True"
  by (simp add: eq_def py_eq_def instance_fields_def)

text \<open>
  C5. For operands that are numbers (not booleans), a division whose divisor is zero
  (\<open>0.0\<close>, \<open>-0.0\<close> or the int \<open>0\<close>) does not fail: it returns the float NaN, and NaN is
  truthy. The division fails with \<open>Operands must be numbers.\<close> exactly when an operand is
  a boolean or is not a number.
\<close>

theorem truediv_zero_divisor:
  "(isinstance_int_float l \<and> \<not> isinstance_bool l
      \<and> (r = VFloat (Finite 0) \<or> r = VFloat NegZero \<or> r = VInt 0)
      \<longrightarrow> truediv l r = Inr (VFloat NaN) \<and> truthy (VFloat NaN))
   \<and> (truediv l r = Inl (LoxError ''Operands must be numbers.'')
      \<longleftrightarrow> (isinstance_bool l \<or> isinstance_bool r
           \<or> \<not> isinstance_int_float l \<or> \<not> isinstance_int_float r))"
proof -
  have zero: "truediv l r = Inr (VFloat NaN)"
    if "isinstance_int_float l" "\<not> isinstance_bool l"
      "r = VFloat (Finite 0) \<or> r = VFloat NegZero \<or> r = VInt 0"
    using that
    by (auto simp: truediv_def isinstance_bool_def isinstance_int_float_def py_ne_zero_def
        exact_of_def)
  have fails: "truediv l r = Inl (LoxError ''Operands must be numbers.'')
      \<longleftrightarrow> (isinstance_bool l \<or> isinstance_bool r
           \<or> \<not> isinstance_int_float l \<or> \<not> isinstance_int_float r)"
    by (auto simp: truediv_def py_truediv_not_lox_error)
  show ?thesis using zero fails by (simp add: truthy_def)
qed

theorem truediv_zero_divisor_witness:
  "isinstance_int_float (VFloat (Finite 1)) \<and> \<not> isinstance_bool (VFloat (Finite 1))
   \<and> truediv (VFloat (Finite 1)) (VFloat (Finite 0)) = Inr (VFloat NaN)
   \<and> truthy (VFloat NaN)
   \<and> truediv (VBool True) (VFloat (Finite 1)) = Inl (LoxError ''Operands must be numbers.'')"
  using truediv_zero_divisor[of "VFloat (Finite 1)" "VFloat (Finite 0)"]
    truediv_zero_divisor[of "VBool True" "VFloat (Finite 1)"]
  by (simp add: isinstance_int_float_def isinstance_bool_def)

text \<open>
  C6 (the code departs from it). \<open>==\<close> first requires the two runtime types to be the
  same and then asks Python's \<open>==\<close>, so \<open>1 == "1"\<close> and \<open>nil == false\<close> are false,
  \<open>1 == 1\<close> is true and \<open>1 == 2\<close> is false. But for two instances Python's \<open>==\<close> is the
  \<open>__eq__\<close> that \<open>@dataclass\<close> generates for \<open>LoxInstance\<close>, which compares no field: the
  run of \<open>class A { } class B { } var a = A(); a.x = 1; print a == B();\<close> prints \<open>true\<close>,
  for two instances of different classes, one with the field \<open>x\<close> and one without. The
  sibling \<open>LoxBoundMethod\<close> defines its \<open>__eq__\<close> as identity.
\<close>

theorem eq_unlike_instances_true:
  "map_option (\<lambda>(r, s). (r, printed s, inst_fields s))
       (eval_program 12 program_unlike_instances root_ctx root_state)
     = Some (Inr (), [VBool True], [[(''x'', VFloat (Finite 1))], []])
   \<and> eq (VInstance 0 (LoxClass ''A'' [] None)) (VInstance 1 (LoxClass ''B'' [] None))
   \<and> \<not> eq (VFloat (Finite 1)) (VStr ''1'')
   \<and> eq (VFloat (Finite 1)) (VFloat (Finite 1))
   \<and> \<not> eq (VFloat (Finite 1)) (VFloat (Finite 2))
   \<and> \<not> eq VNone (VBool False)
   \<and> ne (VFloat (Finite 1)) (VFloat (Finite 2))"
  by (simp add: run_defs program_unlike_instances_def eq_def ne_def py_eq_def instance_fields_def)

text \<open>
  C7 (the code departs from it). Unary minus is \<open>operator.neg\<close> with no check of its own:
  on a boolean it does not fail but returns a Python int (\<open>-true\<close> is \<open>-1\<close>), where
  subtraction refuses a boolean with \<open>Operands must be numbers.\<close>; on a string or \<open>nil\<close>
  it raises the host's \<open>TypeError\<close>; on a float it returns the negation.
\<close>

theorem neg_accepts_boolean:
  "neg (VBool True) = Inr (VInt (- 1))
   \<and> neg (VBool False) = Inr (VInt 0)
   \<and> sub (VBool True) (VFloat (Finite 1)) = Inl (LoxError ''Operands must be numbers.'')
   \<and> neg (VStr t) = Inl TypeError \<and> neg VNone = Inl TypeError
   \<and> neg (VFloat (Finite 2)) = Inr (VFloat (Finite (- 2)))
   \<and> eval_expr 2 (UnaryOp (Literal (LBool True)) OpNeg) root_ctx root_state
       = Some (Inr (VInt (- 1)), root_state)"
  by (simp add: neg_def sub_def isinstance_bool_def run_defs)

text \<open>
  C9. \<open>show\<close> of a float that is an integer is the decimal form of that integer: it is
  made of digits after an optional minus sign, has no decimal point, and reads back as
  the integer the float equals (\<open>show(3.0)\<close> is \<open>3\<close>). It is \<open>str\<close> of the integer, whose
  digits read back as the number and start with no zero unless the number is zero;
  except that a zero whose host text is \<open>-0.0\<close> (the negative zero) gives \<open>-0\<close>. \<open>show\<close>
  of a float that is not an integer is the host's text of it, so \<open>show(3.5)\<close> is \<open>3.5\<close>
  as Python's \<open>str(3.5)\<close> is.
\<close>

theorem show_number:
  "(is_integer d \<longrightarrow>
      show_value float_str (VFloat d) =
        (if double_eq d (Finite 0) \<and> float_str d = ''-0.0'' then ''-0''
         else str_int (int_of_double d))
      \<and> of_int (int_of_double d) = rat_of_double d
      \<and> CHR ''.'' \<notin> set (show_value float_str (VFloat d))
      \<and> set (show_value float_str (VFloat d)) \<subseteq> set ''-0123456789''
      \<and> read_int (show_value float_str (VFloat d)) = int_of_double d)
   \<and> read_int (str_int i) = i
   \<and> read_nat (str_nat n) = n
   \<and> set (str_nat n) \<subseteq> set ''0123456789''
   \<and> (str_nat n = ''0'' \<or> hd (str_nat n) \<noteq> CHR ''0'')
   \<and> show_value float_str (VFloat (Finite 3)) = ''3''
   \<and> show_value float_str (VFloat (Finite 1204)) = ''1204''
   \<and> show_value float_str (VFloat (Finite (- 25))) = ''-25''
   \<and> (float_str NegZero = ''-0.0'' \<longrightarrow> show_value float_str (VFloat NegZero) = ''-0'')
   \<and> (\<not> is_integer d \<longrightarrow> show_value float_str (VFloat d) = float_str d)
   \<and> (float_str (Finite (7 / 2)) = ''3.5''
      \<longrightarrow> show_value float_str (VFloat (Finite (7 / 2))) = ''3.5'')"
proof -
  have a: "is_integer d \<Longrightarrow> of_int (int_of_double d) = rat_of_double d"
    by (cases d) (simp_all add: int_of_double_def)
  have b: "CHR ''.'' \<notin> set (show_value float_str (VFloat d))" if "is_integer d"
    using that str_int_no_point[of "int_of_double d"] by (simp add: show_value_def)
  have b2: "set (show_value float_str (VFloat d)) \<subseteq> set ''-0123456789''" if "is_integer d"
    using that str_int_chars[of "int_of_double d"] by (simp add: show_value_def)
  have z: "double_eq d (Finite 0) \<Longrightarrow> int_of_double d = 0"
    by (cases d) (simp_all add: int_of_double_def)
  have r0: "read_int ''-0'' = 0"
    by (simp add: read_int_def read_nat_def digit_value_def)
  have b3: "read_int (show_value float_str (VFloat d)) = int_of_double d" if "is_integer d"
    using that z r0 read_int_str_int[of "int_of_double d"] by (simp add: show_value_def)
  have c: "\<not> is_integer d \<Longrightarrow> \<not> double_eq d (Finite 0)"
    by (cases d) auto
  have f: "\<lfloor>7 / 2 :: rat\<rfloor> = 3" by (simp add: floor_eq_iff)
  have e: "\<not> is_integer (Finite (7 / 2))" by (simp add: f)
  have g: "str_nat 1204 = ''1204''" "str_nat 25 = ''25''"
    by (simp_all add: str_nat.simps)
  have ex: "show_value float_str (VFloat (Finite 3)) = ''3''"
    "show_value float_str (VFloat (Finite 1204)) = ''1204''"
    "show_value float_str (VFloat (Finite (- 25))) = ''-25''"
    by (simp_all add: show_value_def int_of_double_def str_int_def g)
  have rest: "(float_str NegZero = ''-0.0'' \<longrightarrow> show_value float_str (VFloat NegZero) = ''-0'')
      \<and> (\<not> is_integer d \<longrightarrow> show_value float_str (VFloat d) = float_str d)
      \<and> (float_str (Finite (7 / 2)) = ''3.5''
         \<longrightarrow> show_value float_str (VFloat (Finite (7 / 2))) = ''3.5'')"
    using c e by (simp add: show_value_def)
  have first: "is_integer d \<longrightarrow>
      show_value float_str (VFloat d) =
        (if double_eq d (Finite 0) \<and> float_str d = ''-0.0'' then ''-0''
         else str_int (int_of_double d))
      \<and> of_int (int_of_double d) = rat_of_double d
      \<and> CHR ''.'' \<notin> set (show_value float_str (VFloat d))
      \<and> set (show_value float_str (VFloat d)) \<subseteq> set ''-0123456789''
      \<and> read_int (show_value float_str (VFloat d)) = int_of_double d"
    using a b b2 b3 by (simp add: show_value_def)
  show ?thesis
    using first ex rest read_int_str_int[of i] read_nat_str_nat[of n] str_nat_digits[of n]
      str_nat_no_leading_zero[of n]
    by blast
qed

theorem show_number_witness:
  "is_integer (Finite 3) \<and> \<not> is_integer (Finite (7 / 2))
   \<and> show_value (\<lambda>d. if d = NegZero then ''-0.0'' else ''3.5'') (VFloat (Finite 3)) = ''3''
   \<and> read_int (show_value (\<lambda>d. if d = NegZero then ''-0.0'' else ''3.5'') (VFloat (Finite 3))) = 3
   \<and> show_value (\<lambda>d. if d = NegZero then ''-0.0'' else ''3.5'') (VFloat NegZero) = ''-0''
   \<and> show_value (\<lambda>d. if d = NegZero then ''-0.0'' else ''3.5'') (VFloat (Finite (7 / 2))) = ''3.5''"
proof -
  let ?fs = "\<lambda>d. if d = NegZero then ''-0.0'' else ''3.5''"
  have f: "\<lfloor>7 / 2 :: rat\<rfloor> = 3" by (simp add: floor_eq_iff)
  have i3: "is_integer (Finite 3)" by simp
  have n35: "\<not> is_integer (Finite (7 / 2))" by (simp add: f)
  have z: "?fs NegZero = ''-0.0''" by simp
  have h: "?fs (Finite (7 / 2)) = ''3.5''" by simp
  note t = show_number[of "Finite (7 / 2)" ?fs 0 0]
  note t3 = show_number[of "Finite 3" ?fs 0 0]
  from t have "show_value ?fs (VFloat (Finite 3)) = ''3''" by blast
  moreover from t3 i3 have "read_int (show_value ?fs (VFloat (Finite 3))) = int_of_double (Finite 3)"
    by blast
  then have "read_int (show_value ?fs (VFloat (Finite 3))) = 3" by (simp add: int_of_double_def)
  moreover from t z have "show_value ?fs (VFloat NegZero) = ''-0''" by blast
  moreover from t h have "show_value ?fs (VFloat (Finite (7 / 2))) = ''3.5''" by blast
  ultimately show ?thesis using i3 n35 by blast
qed

section \<open>Calling a class\<close>

lemma get_method_found: "in_chain c name \<Longrightarrow> \<exists>m. get_method c name = Inr m"
proof (induction c name rule: get_method.induct)
  case (1 cname methods base name)
  show ?case
  proof (cases "map_of methods name")
    case None
    then have "name \<notin> fst ` set methods" by (simp add: map_of_eq_None_iff)
    with 1 None show ?thesis by (auto split: option.splits)
  next
    case (Some m)
    then show ?thesis by simp
  qed
qed

lemma get_method_missing:
  "\<not> in_chain c name \<Longrightarrow>
     get_method c name = Inl (LoxError (''Undefined method '' @ quoted name @ ''.''))"
proof (induction c name rule: get_method.induct)
  case (1 cname methods base name)
  then have "name \<notin> fst ` set methods" by simp
  then have "map_of methods name = None" by (simp add: map_of_eq_None_iff)
  with 1 show ?case by (auto split: option.splits)
qed

lemma call_class_result:
  "call_class k c args s = Some (Inr v, s') \<Longrightarrow> v = VInstance (length (inst_fields s)) c"
  by (cases k)
     (auto simp: call_class_def call_class_body_def new_instance_def except_lox_error_def
       split: sum.splits prod.splits option.splits exn.splits if_splits)

text \<open>
  C1 (the code departs from it). With \<open>class P { init(x) { this.x = x; } }\<close>, the run of
  \<open>print P(1).x; print P(); P(1, 2);\<close> prints \<open>1\<close>, then prints the instance that \<open>P()\<close>
  returned (no fault, where the claim has \<open>Expected 1 arguments but got 0.\<close>), then fails
  in \<open>P(1, 2)\<close> with \<open>Expected 0 arguments but got 2.\<close> (where the claim has init's own
  count, 1). \<open>LoxFunction.__call__\<close> itself raises the message with init's count; the
  handler of \<open>LoxClass.__call__\<close> catches it.
\<close>

theorem class_P_arity_not_enforced:
  "map_option (\<lambda>(r, s). (r, printed s)) (eval_program 20 program_P root_ctx root_state)
     = Some (Inl (LoxError ''Expected 0 arguments but got 2.''),
             [VFloat (Finite 1), VInstance 1 lox_class_P])
   \<and> map_option fst (call_class 8 lox_class_P [] root_state)
     = Some (Inr (VInstance 0 lox_class_P))
   \<and> map_option fst (call_function 8
        (LoxFunction ''init'' [''x''] (Block [ExprStmt (Setattr This ''x'' (Var ''x''))]) [0])
        [] root_state)
     = Some (Inl (LoxError ''Expected 1 arguments but got 0.''))"
  by (simp add: run_defs program_P_def class_P_def lox_class_P_def str_nat.simps)

text \<open>
  C2. For a class with no \<open>init\<close> in its inheritance chain, a call with no argument
  returns (at every depth from 1 on) and its result is the new instance; a call with
  \<open>N > 0\<close> arguments fails with \<open>Expected 0 arguments but got N.\<close>. For every class and
  every argument list, a call that completes without a fault returns the instance
  constructed by that call: the next free address, with the class called.
\<close>

theorem call_class_without_init:
  "(\<not> in_chain c ''init'' \<longrightarrow>
      call_class (Suc n) c [] s
        = Some (Inr (VInstance (length (inst_fields s)) c),
                s\<lparr>inst_fields := inst_fields s @ [[]]\<rparr>)
      \<and> (args \<noteq> [] \<longrightarrow>
           call_class (Suc n) c args s
             = Some (Inl (LoxError (''Expected 0 arguments but got ''
                                     @ str_nat (length args) @ ''.'')),
                     s\<lparr>inst_fields := inst_fields s @ [[]]\<rparr>)))
   \<and> (call_class k c args s = Some (Inr v, s') \<longrightarrow> v = VInstance (length (inst_fields s)) c)"
  using call_class_result[of k c args s v s']
  by (auto simp: call_class_def call_class_body_def new_instance_def except_lox_error_def
      get_method_missing)

theorem call_class_without_init_witness:
  "\<not> in_chain (LoxClass ''A'' [] None) ''init''
   \<and> call_class 1 (LoxClass ''A'' [] None) [] root_state
       = Some (Inr (VInstance 0 (LoxClass ''A'' [] None)), root_state\<lparr>inst_fields := [[]]\<rparr>)
   \<and> call_class 1 (LoxClass ''A'' [] None) [VNone, VNone] root_state
       = Some (Inl (LoxError ''Expected 0 arguments but got 2.''),
               root_state\<lparr>inst_fields := [[]]\<rparr>)"
  using call_class_without_init[of "LoxClass ''A'' [] None" 0 root_state "[VNone, VNone]"
      1 "VInstance 0 (LoxClass ''A'' [] None)" "root_state\<lparr>inst_fields := [[]]\<rparr>"]
  by (simp add: root_state_def str_nat.simps)

text \<open>
  C10. For a class with an \<open>init\<close> in its chain, called with no argument: when \<open>init\<close>
  takes parameters, the arity fault of its call is caught and the call of the class
  returns the new instance; and whenever the call of the bound \<open>init\<close> ends in a
  \<open>LoxError\<close> (raised anywhere in its body), the call of the class returns the new
  instance, in the state the failed initializer left.
\<close>

theorem call_class_swallows_init_fault:
  "in_chain c ''init'' \<longrightarrow>
     (\<exists>m. get_method c ''init'' = Inr m
        \<and> (fn_params m \<noteq> [] \<longrightarrow>
             map_option fst (call_class (Suc (Suc n)) c [] s)
               = Some (Inr (fst (new_instance c s))))
        \<and> (call_function n
              (fst (bind m (fst (new_instance c s)) (snd (new_instance c s)))) []
              (snd (bind m (fst (new_instance c s)) (snd (new_instance c s))))
             = Some (Inl (LoxError msg), s2)
           \<longrightarrow> call_class (Suc n) c [] s = Some (Inr (fst (new_instance c s)), s2)))"
proof
  assume "in_chain c ''init''"
  then obtain m where m: "get_method c ''init'' = Inr m"
    using get_method_found by blast
  have arity: "map_option fst (call_class (Suc (Suc n)) c [] s)
      = Some (Inr (fst (new_instance c s)))" if "fn_params m \<noteq> []"
    using that m
    by (simp add: call_class_def call_class_body_def new_instance_def except_lox_error_def
        call_function_body_def bind_def push_def)
  have body: "call_class (Suc n) c [] s = Some (Inr (fst (new_instance c s)), s2)"
    if "call_function n
          (fst (bind m (fst (new_instance c s)) (snd (new_instance c s)))) []
          (snd (bind m (fst (new_instance c s)) (snd (new_instance c s))))
        = Some (Inl (LoxError msg), s2)"
    using that m
    by (auto simp: call_class_def call_class_body_def call_function_def new_instance_def
        except_lox_error_def split: prod.splits)
  show "\<exists>m. get_method c ''init'' = Inr m
        \<and> (fn_params m \<noteq> [] \<longrightarrow>
             map_option fst (call_class (Suc (Suc n)) c [] s)
               = Some (Inr (fst (new_instance c s))))
        \<and> (call_function n
              (fst (bind m (fst (new_instance c s)) (snd (new_instance c s)))) []
              (snd (bind m (fst (new_instance c s)) (snd (new_instance c s))))
             = Some (Inl (LoxError msg), s2)
           \<longrightarrow> call_class (Suc n) c [] s = Some (Inr (fst (new_instance c s)), s2))"
    using m arity body by blast
qed

theorem call_class_swallows_init_fault_witness:
  "in_chain lox_class_Q ''init''
   \<and> map_option fst (call_class 8 lox_class_Q [] root_state)
       = Some (Inr (VInstance 0 lox_class_Q))
   \<and> in_chain lox_class_P ''init''
   \<and> map_option fst (call_class 2 lox_class_P [] root_state)
       = Some (Inr (VInstance 0 lox_class_P))"
proof -
  let ?mQ = "LoxFunction ''init'' []
      (Block [ExprStmt (BinOp (Literal (LBool True)) (Literal (LFloat (Finite 1))) OpAdd)]) [0]"
  let ?mP = "LoxFunction ''init'' [''x'']
      (Block [ExprStmt (Setattr This ''x'' (Var ''x''))]) [0]"
  have inQ: "in_chain lox_class_Q ''init''" by (simp add: lox_class_Q_def)
  have inP: "in_chain lox_class_P ''init''" by (simp add: lox_class_P_def)
  have gQ: "get_method lox_class_Q ''init'' = Inr ?mQ" by (simp add: lox_class_Q_def)
  have gP: "get_method lox_class_P ''init'' = Inr ?mP" by (simp add: lox_class_P_def)
  have "\<exists>s2. call_function 7
          (fst (bind ?mQ (fst (new_instance lox_class_Q root_state))
                 (snd (new_instance lox_class_Q root_state)))) []
          (snd (bind ?mQ (fst (new_instance lox_class_Q root_state))
                 (snd (new_instance lox_class_Q root_state))))
        = Some (Inl (LoxError ''Operands must be two numbers or two strings.''), s2)"
    by (simp add: run_defs add_def isinstance_bool_def)
  then obtain s2 where run: "call_function 7
          (fst (bind ?mQ (fst (new_instance lox_class_Q root_state))
                 (snd (new_instance lox_class_Q root_state)))) []
          (snd (bind ?mQ (fst (new_instance lox_class_Q root_state))
                 (snd (new_instance lox_class_Q root_state))))
        = Some (Inl (LoxError ''Operands must be two numbers or two strings.''), s2)"
    by blast
  from call_class_swallows_init_fault[of lox_class_Q 7 root_state
      "''Operands must be two numbers or two strings.''" s2] inQ gQ run
  have "call_class (Suc 7) lox_class_Q [] root_state
      = Some (Inr (fst (new_instance lox_class_Q root_state)), s2)"
    by auto
  then have q: "map_option fst (call_class 8 lox_class_Q [] root_state)
      = Some (Inr (VInstance 0 lox_class_Q))"
    by (simp add: new_instance_def root_state_def)
  from call_class_swallows_init_fault[of lox_class_P 0 root_state
      "''Operands must be two numbers or two strings.''" s2] inP gP
  have "map_option fst (call_class (Suc (Suc 0)) lox_class_P [] root_state)
      = Some (Inr (fst (new_instance lox_class_P root_state)))"
    by auto
  then have p: "map_option fst (call_class 2 lox_class_P [] root_state)
      = Some (Inr (VInstance 0 lox_class_P))"
    by (simp add: new_instance_def root_state_def numeral_2_eq_2)
  show ?thesis using inQ inP q p by blast
qed

section \<open>Validation of variable reads\<close>

lemma and_then_ok: "and_then a b = Inr () \<longleftrightarrow> a = Inr () \<and> b = Inr ()"
  by (cases a) (simp_all add: and_then_def)

lemma occurs_rejected:
  "occurs x e \<Longrightarrow> first_vardef parents = Some (x, outer) \<Longrightarrow> list_ex is_block outer
     \<Longrightarrow> validate_expr parents e \<noteq> Inr ()"
  "occurs_list x es \<Longrightarrow> first_vardef parents = Some (x, outer) \<Longrightarrow> list_ex is_block outer
     \<Longrightarrow> validate_exprs parents es \<noteq> Inr ()"
proof (induction parents e and parents es rule: validate_expr_validate_exprs.induct)
  case (2 parents name)
  then show ?case by (simp add: var_validate_self_def)
qed (auto simp: and_then_ok)

lemma reads_own_initializer_rejected:
  "reads_own_initializer b st \<Longrightarrow> (b \<longrightarrow> list_ex is_block parents)
     \<Longrightarrow> validate_stmt parents st \<noteq> Inr ()"
  "reads_own_initializer_list b stmts \<Longrightarrow> (b \<longrightarrow> list_ex is_block parents)
     \<Longrightarrow> validate_stmts parents stmts \<noteq> Inr ()"
proof (induction parents st and parents stmts arbitrary: b and b
    rule: validate_stmt_validate_stmts.induct)
  case (4 parents name e)
  then have "occurs name e" and "list_ex is_block parents" by simp_all
  then have "validate_expr (NStmt (VarDef name e) # parents) e \<noteq> Inr ()"
    using occurs_rejected(1)[of name e "NStmt (VarDef name e) # parents" parents] by simp
  then show ?case by (simp add: and_then_ok)
next
  case (5 parents condition then_stmt else_stmt)
  then show ?case
    by (cases else_stmt) (fastforce simp: and_then_ok is_block_def)+
next
  case (6 parents condition body)
  then show ?case by (fastforce simp: and_then_ok is_block_def)
next
  case (7 parents stmts)
  have "list_ex is_block (NStmt (Block stmts) # parents)" by (simp add: is_block_def)
  with 7 show ?case by (fastforce simp: and_then_ok)
next
  case (8 parents name params body)
  then show ?case by (fastforce simp: and_then_ok is_block_def)
next
  case (9 parents name methods superclass)
  then show ?case by (fastforce simp: and_then_ok is_block_def)
next
  case (11 parents st rest)
  then show ?case by (fastforce simp: and_then_ok)
qed simp_all

text \<open>
  C8. Validation rejects every program in which, somewhere, a \<open>VarDef\<close> inside a block has
  an initializer that reads the variable it declares. At such a read \<open>Var.validate_self\<close>
  raises \<open>Can't read local variable in its own initializer.\<close> (for a name that is not a
  reserved word), the nearest \<open>VarDef\<close> ancestor being that declaration with a \<open>Block\<close>
  above it; with no \<open>Block\<close> above the declaration, or under a \<open>VarDef\<close> of another name,
  the check passes. \<open>{ var x = x; }\<close> fails with that message; \<open>var x = x;\<close> at top level
  and \<open>var x = 1; { var y = x; }\<close> pass.
\<close>

theorem self_initializer_rejected:
  "(reads_own_initializer_list False stmts \<longrightarrow> validate_program (Program stmts) \<noteq> Inr ())
   \<and> (x \<notin> set reserved_words \<and> first_vardef parents = Some (x, outer) \<and> list_ex is_block outer
      \<longrightarrow> var_validate_self x parents
            = Inl (SemanticError (''Can'' @ [CHR 0x27] @ ''t read local variable in its own initializer.'')
                     (Some x)))
   \<and> (x \<notin> set reserved_words \<and> first_vardef parents = Some (y, outer)
        \<and> (y \<noteq> x \<or> \<not> list_ex is_block outer)
      \<longrightarrow> var_validate_self x parents = Inr ())
   \<and> validate_program program_self_init
        = Inl (SemanticError (''Can'' @ [CHR 0x27] @ ''t read local variable in its own initializer.'')
                 (Some ''x''))
   \<and> validate_program program_top_level_init = Inr ()
   \<and> validate_program program_outer_read = Inr ()"
proof -
  have a: "validate_program (Program stmts) \<noteq> Inr ()" if "reads_own_initializer_list False stmts"
    using reads_own_initializer_rejected(2)[OF that, of "[NProgram (Program stmts)]"]
    by (simp add: validate_program_def)
  have b: "validate_program program_self_init
        = Inl (SemanticError (''Can'' @ [CHR 0x27] @ ''t read local variable in its own initializer.'')
                 (Some ''x''))"
    by (simp add: validate_program_def program_self_init_def and_then_def block_validate_self_def
        vardef_validate_self_def var_validate_self_def reserved_words_def is_block_def)
  have c: "validate_program program_top_level_init = Inr ()"
    by (simp add: validate_program_def program_top_level_init_def and_then_def
        vardef_validate_self_def var_validate_self_def reserved_words_def is_block_def)
  have d: "validate_program program_outer_read = Inr ()"
    by (simp add: validate_program_def program_outer_read_def and_then_def block_validate_self_def
        vardef_validate_self_def var_validate_self_def reserved_words_def is_block_def)
  show ?thesis using a b c d by (auto simp: var_validate_self_def)
qed

theorem self_initializer_rejected_witness:
  "reads_own_initializer_list False [Block [VarDef ''x'' (Var ''x'')]]
   \<and> validate_program (Program [Block [VarDef ''x'' (Var ''x'')]]) \<noteq> Inr ()
   \<and> ''x'' \<notin> set reserved_words
   \<and> first_vardef [NStmt (VarDef ''x'' (Var ''x'')), NStmt (Block [VarDef ''x'' (Var ''x'')])]
       = Some (''x'', [NStmt (Block [VarDef ''x'' (Var ''x'')])])
   \<and> list_ex is_block [NStmt (Block [VarDef ''x'' (Var ''x'')])]
   \<and> var_validate_self ''x''
        [NStmt (VarDef ''x'' (Var ''x'')), NStmt (Block [VarDef ''x'' (Var ''x'')])]
       = Inl (SemanticError (''Can'' @ [CHR 0x27] @ ''t read local variable in its own initializer.'')
                (Some ''x''))
   \<and> var_validate_self ''x'' [NStmt (VarDef ''y'' (Var ''x''))] = Inr ()"
proof -
  have r: "reads_own_initializer_list False [Block [VarDef ''x'' (Var ''x'')]]" by simp
  have nr: "''x'' \<notin> set reserved_words" by (simp add: reserved_words_def)
  have fv: "first_vardef [NStmt (VarDef ''x'' (Var ''x'')), NStmt (Block [VarDef ''x'' (Var ''x'')])]
       = Some (''x'', [NStmt (Block [VarDef ''x'' (Var ''x'')])])" by simp
  have bl: "list_ex is_block [NStmt (Block [VarDef ''x'' (Var ''x'')])]" by (simp add: is_block_def)
  have fv2: "first_vardef [NStmt (VarDef ''y'' (Var ''x''))] = Some (''y'', [])" by simp
  note t1 = self_initializer_rejected[of "[Block [VarDef ''x'' (Var ''x'')]]" "''x''"
      "[NStmt (VarDef ''x'' (Var ''x'')), NStmt (Block [VarDef ''x'' (Var ''x'')])]"
      "[NStmt (Block [VarDef ''x'' (Var ''x'')])]" "''x''"]
  note t2 = self_initializer_rejected[of "[]" "''x''" "[NStmt (VarDef ''y'' (Var ''x''))]" "[]" "''y''"]
  from t1 r have 1: "validate_program (Program [Block [VarDef ''x'' (Var ''x'')]]) \<noteq> Inr ()"
    by blast
  from t1 nr fv bl have 2: "var_validate_self ''x''
        [NStmt (VarDef ''x'' (Var ''x'')), NStmt (Block [VarDef ''x'' (Var ''x'')])]
       = Inl (SemanticError (''Can'' @ [CHR 0x27] @ ''t read local variable in its own initializer.'')
                (Some ''x''))"
    by blast
  from t2 nr fv2 have 3: "var_validate_self ''x'' [NStmt (VarDef ''y'' (Var ''x''))] = Inr ()"
    by simp
  show ?thesis using r nr fv bl 1 2 3 by blast
qed

section \<open>Semantic errors during evaluation\<close>

lemma osf_value [simp]: "only_superclass_fault (Some (Inr v, s))"
  by (simp add: only_superclass_fault_def)

lemma osf_None [simp]: "only_superclass_fault None"
  by (simp add: only_superclass_fault_def)
























end
